theory Spec2Isabelle
  imports Complex_Main "HOL-Library.Word" "HOL-Library.Signed_Division"
begin

unbundle bit_operations_syntax

section \<open>The LL905 range finder driver (src/drivers/ll905/ll905.cpp)\<close>

text \<open>
  A shallow embedding of the class \<^verbatim>\<open>LL905\<close>: its member variables are a record, its
  member functions are functions on that record. What the driver does to the world
  around it (bus transactions, sleeping, the work queue, uORB, logging) is appended to
  an event trace kept in the state; what the world answers (the reply of the device to
  a bus transaction, the clock, user memory) is read from fields of the state that no
  member function writes.
\<close>

subsection \<open>Machine types\<close>

type_synonym uint8_t = "8 word"
type_synonym uint16_t = "16 word"
type_synonym uint32_t = "32 word"
type_synonym uint64_t = "64 word"

subsection \<open>Single precision numbers\<close>

text \<open>
  The values of the C type \<^verbatim>\<open>float\<close>: a finite number (kept as the rational it
  denotes, the two zeros identified), the two infinities and NaN. The driver compares
  floats and forms one product, \<^verbatim>\<open>distance * 0.01f\<close>.
\<close>

datatype float = Finite rat | PosInf | NegInf | NaN

text \<open>The comparison \<^verbatim>\<open><\<close> of IEEE 754: false whenever an operand is NaN.\<close>

fun float_less :: "float \<Rightarrow> float \<Rightarrow> bool" where
  "float_less (Finite a) (Finite b) = (a < b)"
| "float_less (Finite a) PosInf = True"
| "float_less NegInf (Finite b) = True"
| "float_less NegInf PosInf = True"
| "float_less _ _ = False"

text \<open>\<^verbatim>\<open>a > b\<close> is \<^verbatim>\<open>b < a\<close>.\<close>

definition float_greater :: "float \<Rightarrow> float \<Rightarrow> bool" where
  "float_greater a b = float_less b a"

text \<open>The number of binary digits of a natural number.\<close>

fun bitlen :: "nat \<Rightarrow> nat" where
  "bitlen n = (if n = 0 then 0 else Suc (bitlen (n div 2)))"

declare bitlen.simps [simp del]

text \<open>
  Rounding \<open>m\<close> to a multiple of \<open>2 ^ k\<close>, to the nearest one and to the one with the
  even quotient on a tie: the default rounding mode.
\<close>

definition round_half_even :: "nat \<Rightarrow> nat \<Rightarrow> nat" where
  "round_half_even k m =
     (let q = m div 2 ^ k; r = m mod 2 ^ k
      in if 2 ^ k < 2 * r \<or> (2 * r = 2 ^ k \<and> odd q) then (q + 1) * 2 ^ k else q * 2 ^ k)"

text \<open>Rounding a natural number to 24 significant binary digits, the precision of a float.\<close>

definition round24 :: "nat \<Rightarrow> nat" where
  "round24 m = (if bitlen m \<le> 24 then m else round_half_even (bitlen m - 24) m)"

text \<open>
  The literal \<^verbatim>\<open>0.01f\<close> is the float nearest to 1/100, which is
  \<open>10737418 / 2 ^ 30\<close> (a significand of 24 digits: \<open>2 ^ 23 \<le> 10737418 < 2 ^ 24\<close>).
\<close>

definition float_0_01_significand :: nat where
  "float_0_01_significand = 10737418"

text \<open>
  \<^verbatim>\<open>distance * 0.01f\<close> for a \<^verbatim>\<open>uint16_t distance\<close>: the count is converted to float
  exactly (it has 16 digits), the exact product is
  \<open>distance * 10737418 / 2 ^ 30\<close>, and the result is that product rounded to 24
  significant digits. The product is 0 or lies between \<open>2 ^ - 7\<close> and \<open>2 ^ 10\<close>,
  far from the overflow and underflow thresholds of the format.
\<close>

definition times_0_01f :: "uint16_t \<Rightarrow> float" where
  "times_0_01f distance =
     Finite (of_nat (round24 (unat distance * float_0_01_significand)) / 2 ^ 30)"

subsection \<open>Configuration constants of the driver\<close>

definition LL905_MEASURE_REG :: uint8_t where
  "LL905_MEASURE_REG = 0x00"

definition LL905_MSRREG_ACQUIRE :: uint8_t where
  "LL905_MSRREG_ACQUIRE = 0x04"

definition LL905_DISTHIGH_REG :: uint8_t where
  "LL905_DISTHIGH_REG = 0x8F"

definition LL905_RESET_FPGA :: uint8_t where
  "LL905_RESET_FPGA = 0x0"

text \<open>\<^verbatim>\<open>0.20f\<close> is the float nearest to 1/5, which is \<open>13421773 / 2 ^ 26\<close>.\<close>

definition LL905_MIN_DISTANCE :: float where
  "LL905_MIN_DISTANCE = Finite (13421773 / 2 ^ 26)"

definition LL905_MAX_DISTANCE :: float where
  "LL905_MAX_DISTANCE = Finite 10"

definition LL905_CONVERSION_INTERVAL :: nat where
  "LL905_CONVERSION_INTERVAL = 100000"

text \<open>
  Return values: \<^verbatim>\<open>OK\<close> and the error numbers that the driver returns negated, with
  their POSIX values.
\<close>

definition OK :: int where
  "OK = 0"

definition EIO :: int where
  "EIO = 5"

definition EAGAIN :: int where
  "EAGAIN = 11"

definition ENOMEM :: int where
  "ENOMEM = 12"

definition EINVAL :: int where
  "EINVAL = 22"

definition ENOSPC :: int where
  "ENOSPC = 28"

subsection \<open>What the build supplies\<close>

text \<open>
  The macros and declarations that the driver takes from headers outside this file are
  parameters of the model: the conversion \<^verbatim>\<open>USEC2TICK\<close> from microseconds to scheduler
  ticks, the four reserved poll rates of drv_sensor.h, the size of a report, and the
  \<^verbatim>\<open>ioctl\<close> of the base class \<^verbatim>\<open>device::I2C\<close>.
\<close>

record platform =
  USEC2TICK :: "uint32_t \<Rightarrow> uint32_t"
  SENSOR_POLLRATE_MANUAL :: uint32_t
  SENSOR_POLLRATE_EXTERNAL :: uint32_t
  SENSOR_POLLRATE_MAX :: uint32_t
  SENSOR_POLLRATE_DEFAULT :: uint32_t
  sizeof_range_finder_report :: nat
  I2C_ioctl :: "int \<Rightarrow> uint32_t \<Rightarrow> int"

text \<open>\<^verbatim>\<open>USEC2TICK(LL905_CONVERSION_INTERVAL)\<close>, the conversion latency in ticks.\<close>

definition conversion_ticks :: "platform \<Rightarrow> uint32_t" where
  "conversion_ticks P = USEC2TICK P (of_nat LL905_CONVERSION_INTERVAL)"

subsection \<open>Reports and the report ring\<close>

datatype range_finder_type = RANGE_FINDER_TYPE_LASER

text \<open>The fields of \<^verbatim>\<open>struct range_finder_report\<close> that \<^verbatim>\<open>collect\<close> writes.\<close>

record range_finder_report =
  timestamp :: uint64_t
  rtype :: range_finder_type
  error_count :: uint64_t
  distance :: float
  valid :: nat

text \<open>
  Modelled from the spec: the class \<^verbatim>\<open>RingBuffer\<close> (drivers/device/ringbuffer.h), the
  History Buffer of the specification, is not among the source files. It is a
  fixed-capacity store of the most recent reports, oldest first: \<open>force\<close> inserts and,
  when the buffer is full, overwrites the oldest entry and returns the overflow flag;
  \<open>get\<close> removes and returns the oldest entry or indicates that there is none; \<open>flush\<close>
  discards all entries; \<open>resize\<close> fails for a capacity below 1 (and when the new store
  cannot be allocated) and otherwise keeps as many of the most recent entries as fit;
  \<open>size\<close> is the capacity.
\<close>

record 'a RingBuffer =
  items :: "'a list"
  capacity :: nat

definition RingBuffer_new :: "nat \<Rightarrow> 'a RingBuffer" where
  "RingBuffer_new n = \<lparr>items = [], capacity = n\<rparr>"

definition RingBuffer_force :: "'a \<Rightarrow> 'a RingBuffer \<Rightarrow> bool \<times> 'a RingBuffer" where
  "RingBuffer_force x rb =
     (if length (items rb) < capacity rb then (False, rb\<lparr>items := items rb @ [x]\<rparr>)
      else (True, rb\<lparr>items := tl (items rb) @ [x]\<rparr>))"

definition RingBuffer_get :: "'a RingBuffer \<Rightarrow> ('a \<times> 'a RingBuffer) option" where
  "RingBuffer_get rb =
     (case items rb of [] \<Rightarrow> None | x # xs \<Rightarrow> Some (x, rb\<lparr>items := xs\<rparr>))"

definition RingBuffer_flush :: "'a RingBuffer \<Rightarrow> 'a RingBuffer" where
  "RingBuffer_flush rb = rb\<lparr>items := []\<rparr>"

definition RingBuffer_resize :: "nat \<Rightarrow> bool \<Rightarrow> 'a RingBuffer \<Rightarrow> 'a RingBuffer option" where
  "RingBuffer_resize n allocated rb =
     (if n < 1 \<or> \<not> allocated then None
      else Some \<lparr>items = drop (length (items rb) - n) (items rb), capacity = n\<rparr>)"

definition RingBuffer_size :: "'a RingBuffer \<Rightarrow> nat" where
  "RingBuffer_size rb = capacity rb"

subsection \<open>The driver's state and its environment\<close>

text \<open>What the driver does to its environment, in the order in which it does it.\<close>

datatype event =
    I2C_transfer "uint8_t list" nat
  | Usleep nat
  | Work_queue uint32_t
  | Work_cancel
  | Orb_publish_range_finder range_finder_report
  | Orb_publish_subsystem_info
  | Orb_advertise_subsystem_info
  | Poll_notify
  | Log string
  | Perf_begin
  | Perf_end

text \<open>
  The member variables of \<^verbatim>\<open>LL905\<close> (without the leading underscore), the static \<open>pub\<close>
  of \<^verbatim>\<open>start\<close>, and the environment. \<open>work\<close> is the work item \<^verbatim>\<open>_work\<close>: the delay in
  ticks after which the queue will call \<^verbatim>\<open>cycle_trampoline\<close>, or \<open>None\<close> when the item is
  not queued. \<open>reports\<close> is the ring that \<^verbatim>\<open>init\<close> allocates; the model describes the
  driver from there on. The perf counters \<^verbatim>\<open>_comms_errors\<close> and
  \<^verbatim>\<open>_buffer_overflows\<close> are their event counts.

  The environment: \<open>i2c_reply s n\<close> is what the \<open>n\<close>-th bus transaction returns (the return
  value of \<^verbatim>\<open>I2C::transfer\<close> and the two bytes received), \<open>i2c_count\<close> the number of
  transactions so far, \<open>hrt\<close> the reading of \<^verbatim>\<open>hrt_absolute_time()\<close>,
  \<open>orb_advertise_ret\<close> the handle that \<^verbatim>\<open>orb_advertise\<close> returns, \<open>user_float s a\<close> the
  float at the address \<open>a\<close> of the caller's memory, \<open>heap_ok\<close> whether an allocation
  succeeds, and \<open>trace\<close> the events so far, the latest last.
\<close>

record LL905 =
  min_distance :: float
  max_distance :: float
  work :: "uint32_t option"
  reports :: "range_finder_report RingBuffer"
  sensor_ok :: bool
  measure_ticks :: int
  collect_phase :: bool
  class_instance_id :: int
  range_finder_topic :: int
  comms_errors :: uint64_t
  buffer_overflows :: uint64_t
  pub :: int
  i2c_reply :: "nat \<Rightarrow> int \<times> uint8_t \<times> uint8_t"
  i2c_count :: nat
  hrt :: uint64_t
  orb_advertise_ret :: int
  user_float :: "uint32_t \<Rightarrow> float"
  heap_ok :: bool
  trace :: "event list"

definition emit :: "event \<Rightarrow> LL905 \<Rightarrow> LL905" where
  "emit e s = s\<lparr>trace := trace s @ [e]\<rparr>"

text \<open>\<^verbatim>\<open>transfer(send, send_len, recv, recv_len)\<close>: one bus transaction.\<close>

definition transfer ::
  "uint8_t list \<Rightarrow> nat \<Rightarrow> LL905 \<Rightarrow> (int \<times> uint8_t \<times> uint8_t) \<times> LL905" where
  "transfer send recv_len s =
     (i2c_reply s (i2c_count s),
      emit (I2C_transfer send recv_len) (s\<lparr>i2c_count := Suc (i2c_count s)\<rparr>))"

definition work_queue :: "uint32_t \<Rightarrow> LL905 \<Rightarrow> LL905" where
  "work_queue delay s = emit (Work_queue delay) (s\<lparr>work := Some delay\<rparr>)"

definition work_cancel :: "LL905 \<Rightarrow> LL905" where
  "work_cancel s = emit Work_cancel (s\<lparr>work := None\<rparr>)"

definition perf_count_comms_errors :: "LL905 \<Rightarrow> LL905" where
  "perf_count_comms_errors s = s\<lparr>comms_errors := comms_errors s + 1\<rparr>"

definition perf_count_buffer_overflows :: "LL905 \<Rightarrow> LL905" where
  "perf_count_buffer_overflows s = s\<lparr>buffer_overflows := buffer_overflows s + 1\<rparr>"

subsection \<open>The member functions\<close>

definition set_minimum_distance :: "float \<Rightarrow> LL905 \<Rightarrow> LL905" where
  "set_minimum_distance m s = s\<lparr>min_distance := m\<rparr>"

definition set_maximum_distance :: "float \<Rightarrow> LL905 \<Rightarrow> LL905" where
  "set_maximum_distance m s = s\<lparr>max_distance := m\<rparr>"

definition get_minimum_distance :: "LL905 \<Rightarrow> float" where
  "get_minimum_distance s = min_distance s"

definition get_maximum_distance :: "LL905 \<Rightarrow> float" where
  "get_maximum_distance s = max_distance s"

text \<open>\<^verbatim>\<open>LL905::measure\<close>: send the command to begin a measurement.\<close>

definition LL905_measure :: "LL905 \<Rightarrow> int \<times> LL905" where
  "LL905_measure s =
     (case transfer [LL905_MEASURE_REG, LL905_MSRREG_ACQUIRE] 0 s of
        ((ret, val0, val1), s1) \<Rightarrow>
          if OK \<noteq> ret
          then (ret, emit (Log ''i2c::transfer returned %d'') (perf_count_comms_errors s1))
          else (OK, s1))"

text \<open>\<^verbatim>\<open>(val[0] << 8) | val[1]\<close>, stored in a \<^verbatim>\<open>uint16_t\<close>.\<close>

definition distance_count :: "uint8_t \<Rightarrow> uint8_t \<Rightarrow> uint16_t" where
  "distance_count val0 val1 = push_bit 8 (ucast val0) OR ucast val1"

text \<open>The report that \<^verbatim>\<open>collect\<close> fills in from the two bytes read.\<close>

definition collect_report :: "LL905 \<Rightarrow> uint8_t \<Rightarrow> uint8_t \<Rightarrow> range_finder_report" where
  "collect_report s val0 val1 =
     (let si_units = times_0_01f (distance_count val0 val1)
      in \<lparr>timestamp = hrt s,
          rtype = RANGE_FINDER_TYPE_LASER,
          error_count = comms_errors s,
          distance = si_units,
          valid = (if float_greater si_units (get_minimum_distance s)
                      \<and> float_less si_units (get_maximum_distance s)
                   then 1 else 0)\<rparr>)"

text \<open>\<^verbatim>\<open>LL905::collect\<close>: read the distance registers, build, publish and store the report.\<close>

definition LL905_collect :: "LL905 \<Rightarrow> int \<times> LL905" where
  "LL905_collect s =
     (case transfer [LL905_DISTHIGH_REG] 2 (emit Perf_begin s) of
        ((ret, val0, val1), s1) \<Rightarrow>
          if ret < 0
          then (ret, emit Perf_end
                  (perf_count_comms_errors (emit (Log ''error reading from sensor: %d'') s1)))
          else
            (let report = collect_report s1 val0 val1;
                 s2 = (if 0 \<le> range_finder_topic s1
                       then emit (Orb_publish_range_finder report) s1 else s1);
                 s3 = (case RingBuffer_force report (reports s2) of
                         (overwrote, rb) \<Rightarrow>
                           if overwrote then perf_count_buffer_overflows (s2\<lparr>reports := rb\<rparr>)
                           else s2\<lparr>reports := rb\<rparr>);
                 s4 = emit Poll_notify s3
             in (OK, emit Perf_end s4)))"

text \<open>
  \<^verbatim>\<open>LL905::start\<close>: reset the report ring and the state machine, schedule a cycle one
  tick from now, and tell the subsystem-info topic (through the handle \<open>pub\<close>, advertised
  on the first call).
\<close>

definition LL905_start :: "LL905 \<Rightarrow> LL905" where
  "LL905_start s =
     (let s1 = s\<lparr>collect_phase := False\<rparr>;
          s2 = s1\<lparr>reports := RingBuffer_flush (reports s1)\<rparr>;
          s3 = work_queue 1 s2
      in if 0 < pub s3 then emit Orb_publish_subsystem_info s3
         else (emit Orb_advertise_subsystem_info s3)\<lparr>pub := orb_advertise_ret s3\<rparr>)"

text \<open>\<^verbatim>\<open>LL905::stop\<close>.\<close>

definition LL905_stop :: "LL905 \<Rightarrow> LL905" where
  "LL905_stop s = work_cancel s"

text \<open>
  The measurement phase of \<^verbatim>\<open>LL905::cycle\<close>, the code after the \<^verbatim>\<open>if (_collect_phase)\<close>
  block: it is reached when the phase is not the collection phase, and by falling
  through after a collection that leaves no gap.
\<close>

definition measurement_phase :: "platform \<Rightarrow> LL905 \<Rightarrow> LL905" where
  "measurement_phase P s =
     (case LL905_measure s of
        (ret, s1) \<Rightarrow>
          (let s2 = (if OK \<noteq> ret then emit (Log ''measure error'') s1 else s1);
               s3 = s2\<lparr>collect_phase := True\<rparr>
           in work_queue (conversion_ticks P) s3))"

text \<open>\<^verbatim>\<open>LL905::cycle\<close>: collect from the previous measurement and start a new one.\<close>

definition LL905_cycle :: "platform \<Rightarrow> LL905 \<Rightarrow> LL905" where
  "LL905_cycle P s =
     (if collect_phase s then
        (case LL905_collect s of
           (ret, s1) \<Rightarrow>
             if OK \<noteq> ret then LL905_start (emit (Log ''collection error'') s1)
             else
               (let s2 = s1\<lparr>collect_phase := False\<rparr>
                in if sint (conversion_ticks P) < measure_ticks s2
                   then work_queue
                          (word_of_int (measure_ticks s2 - sint (conversion_ticks P))) s2
                   else measurement_phase P s2))
      else measurement_phase P s)"

definition cycle_trampoline :: "platform \<Rightarrow> LL905 \<Rightarrow> LL905" where
  "cycle_trampoline P dev = LL905_cycle P dev"

text \<open>
  The loop of \<^verbatim>\<open>LL905::read\<close> in automatic mode, \<^verbatim>\<open>while (count--)\<close>: each round tries to
  take one report from the ring into the caller's buffer \<open>rbuf\<close> and adds its size to
  \<open>ret\<close>.
\<close>

fun read_loop ::
  "nat \<Rightarrow> nat \<Rightarrow> range_finder_report RingBuffer \<Rightarrow> int \<Rightarrow> range_finder_report list \<Rightarrow>
   range_finder_report RingBuffer \<times> int \<times> range_finder_report list" where
  "read_loop sz 0 rb ret rbuf = (rb, ret, rbuf)"
| "read_loop sz (Suc count) rb ret rbuf =
     (case RingBuffer_get rb of
        Some (r, rb') \<Rightarrow> read_loop sz count rb' (ret + int sz) (rbuf @ [r])
      | None \<Rightarrow> read_loop sz count rb ret rbuf)"

text \<open>
  \<^verbatim>\<open>LL905::read\<close>. The result is the return value and the reports written to the
  caller's buffer, with the new state. \<open>count\<close> is \<^verbatim>\<open>buflen / sizeof(struct
  range_finder_report)\<close>; the first test, \<^verbatim>\<open>count < 1\<close>, comes before the choice between
  the automatic and the manual mode.
\<close>

definition LL905_read ::
  "platform \<Rightarrow> uint32_t \<Rightarrow> LL905 \<Rightarrow> (int \<times> range_finder_report list) \<times> LL905" where
  "LL905_read P buflen s =
     (let count = unat buflen div sizeof_range_finder_report P
      in if count < 1 then ((- ENOSPC, []), s)
         else if 0 < measure_ticks s then
           (case read_loop (sizeof_range_finder_report P) count (reports s) 0 [] of
              (rb, ret, rbuf) \<Rightarrow>
                ((if ret \<noteq> 0 then ret else - EAGAIN, rbuf), s\<lparr>reports := rb\<rparr>))
         else
           (let s1 = s\<lparr>reports := RingBuffer_flush (reports s)\<rparr>
            in case LL905_measure s1 of
                 (ret_m, s2) \<Rightarrow>
                   if OK \<noteq> ret_m then ((- EIO, []), s2)
                   else
                     (let s3 = emit (Usleep LL905_CONVERSION_INTERVAL) s2
                      in case LL905_collect s3 of
                           (ret_c, s4) \<Rightarrow>
                             if OK \<noteq> ret_c then ((- EIO, []), s4)
                             else
                               (case RingBuffer_get (reports s4) of
                                  Some (r, rb) \<Rightarrow>
                                    ((int (sizeof_range_finder_report P), [r]),
                                     s4\<lparr>reports := rb\<rparr>)
                                | None \<Rightarrow> ((0, []), s4)))))"

subsection \<open>The control surface\<close>

text \<open>
  A division of C is undefined for the divisor 0: in the model it is a fault, so that
  a division by zero is a result that \<^verbatim>\<open>ioctl\<close> can be shown never to have.
\<close>

datatype fault = Division_by_zero

definition unsigned_div :: "uint32_t \<Rightarrow> uint32_t \<Rightarrow> fault + uint32_t" where
  "unsigned_div a b = (if b = 0 then Inl Division_by_zero else Inr (a div b))"

definition int_div :: "int \<Rightarrow> int \<Rightarrow> fault + int" where
  "int_div a b = (if b = 0 then Inl Division_by_zero else Inr (a sdiv b))"

text \<open>The commands that \<^verbatim>\<open>LL905::ioctl\<close> handles itself, and any other command number.\<close>

datatype ioctl_cmd =
    SENSORIOCSPOLLRATE
  | SENSORIOCGPOLLRATE
  | SENSORIOCSQUEUEDEPTH
  | SENSORIOCGQUEUEDEPTH
  | SENSORIOCRESET
  | RANGEFINDERIOCSETMINIUMDISTANCE
  | RANGEFINDERIOCSETMAXIUMDISTANCE
  | Other_cmd int

text \<open>
  \<^verbatim>\<open>LL905::ioctl\<close>, one equation for each case of the outer \<^verbatim>\<open>switch (cmd)\<close>. Every
  case of the inner \<^verbatim>\<open>switch (arg)\<close> of the poll rate returns, so no case falls through.
  The queue is resized between \<^verbatim>\<open>irqsave\<close> and \<^verbatim>\<open>irqrestore\<close>, which leave no mark on
  a sequential model. The argument is an \<^verbatim>\<open>unsigned long\<close>, 32 bits wide on the target;
  \<^verbatim>\<open>unsigned ticks\<close> is compared as unsigned and stored in the \<^verbatim>\<open>int\<close>
  \<^verbatim>\<open>_measure_ticks\<close> by its two's complement reading, \<open>sint\<close>. The two threshold
  commands read a float through the pointer that the argument is.
\<close>

fun LL905_ioctl :: "platform \<Rightarrow> ioctl_cmd \<Rightarrow> uint32_t \<Rightarrow> LL905 \<Rightarrow> fault + int \<times> LL905" where
  "LL905_ioctl P SENSORIOCSPOLLRATE arg s =
     (if arg = SENSOR_POLLRATE_MANUAL P then
        Inr (OK, (LL905_stop s)\<lparr>measure_ticks := 0\<rparr>)
      else if arg = SENSOR_POLLRATE_EXTERNAL P \<or> arg = 0 then
        Inr (- EINVAL, s)
      else if arg = SENSOR_POLLRATE_MAX P \<or> arg = SENSOR_POLLRATE_DEFAULT P then
        (let want_start = (measure_ticks s = 0);
             s1 = s\<lparr>measure_ticks := sint (conversion_ticks P)\<rparr>
         in Inr (OK, if want_start then LL905_start s1 else s1))
      else
        (let want_start = (measure_ticks s = 0)
         in case unsigned_div 1000000 arg of
              Inl f \<Rightarrow> Inl f
            | Inr usec \<Rightarrow>
                (let ticks = USEC2TICK P usec
                 in if ticks < conversion_ticks P then Inr (- EINVAL, s)
                    else
                      (let s1 = s\<lparr>measure_ticks := sint ticks\<rparr>
                       in Inr (OK, if want_start then LL905_start s1 else s1)))))"
| "LL905_ioctl P SENSORIOCGPOLLRATE arg s =
     (if measure_ticks s = 0 then Inr (sint (SENSOR_POLLRATE_MANUAL P), s)
      else case int_div 1000 (measure_ticks s) of
             Inl f \<Rightarrow> Inl f
           | Inr rate \<Rightarrow> Inr (rate, s))"
| "LL905_ioctl P SENSORIOCSQUEUEDEPTH arg s =
     (if arg < 1 \<or> 100 < arg then Inr (- EINVAL, s)
      else case RingBuffer_resize (unat arg) (heap_ok s) (reports s) of
             None \<Rightarrow> Inr (- ENOMEM, s)
           | Some rb \<Rightarrow> Inr (OK, s\<lparr>reports := rb\<rparr>))"
| "LL905_ioctl P SENSORIOCGQUEUEDEPTH arg s =
     Inr (int (RingBuffer_size (reports s)), s)"
| "LL905_ioctl P SENSORIOCRESET arg s = Inr (- EINVAL, s)"
| "LL905_ioctl P RANGEFINDERIOCSETMINIUMDISTANCE arg s =
     Inr (0, set_minimum_distance (user_float s arg) s)"
| "LL905_ioctl P RANGEFINDERIOCSETMAXIUMDISTANCE arg s =
     Inr (0, set_maximum_distance (user_float s arg) s)"
| "LL905_ioctl P (Other_cmd cmd) arg s = Inr (I2C_ioctl P cmd arg, s)"

declare LL905_ioctl.simps [simp del]

subsection \<open>The work queue and the reachable states\<close>

text \<open>
  Modelled from the spec: the work queue of the operating system is not among the
  source files. A queued work item is run once, by a call of \<^verbatim>\<open>cycle_trampoline\<close> that
  completes before the next one starts, and it is no longer queued when the call begins.
\<close>

definition workq_run :: "platform \<Rightarrow> LL905 \<Rightarrow> LL905" where
  "workq_run P s =
     (case work s of None \<Rightarrow> s | Some delay \<Rightarrow> cycle_trampoline P (s\<lparr>work := None\<rparr>))"

text \<open>
  The driver when \<^verbatim>\<open>init\<close> has returned: the constructor's initialisers for the
  thresholds, the interval, the phase and the work item, and the ring of two reports
  that \<^verbatim>\<open>init\<close> allocates. (\<^verbatim>\<open>init\<close> also probes the device, registers the class
  device and advertises the topic; the members that records are left open.)
\<close>

definition after_init :: "LL905 \<Rightarrow> bool" where
  "after_init s \<longleftrightarrow>
     min_distance s = LL905_MIN_DISTANCE \<and> max_distance s = LL905_MAX_DISTANCE \<and>
     work s = None \<and> reports s = RingBuffer_new 2 \<and>
     measure_ticks s = 0 \<and> \<not> collect_phase s"

text \<open>
  The states the driver can be in between two operations: after \<^verbatim>\<open>init\<close>, after an
  \<^verbatim>\<open>ioctl\<close> or a \<^verbatim>\<open>read\<close> in a state it can be in, after the work queue has run the
  queued cycle, and after the environment has changed.
\<close>

inductive reachable :: "platform \<Rightarrow> LL905 \<Rightarrow> bool" for P :: platform where
  reachable_init: "after_init s \<Longrightarrow> reachable P s"
| reachable_ioctl:
    "reachable P s \<Longrightarrow> LL905_ioctl P cmd arg s = Inr (ret, s') \<Longrightarrow> reachable P s'"
| reachable_read:
    "reachable P s \<Longrightarrow> LL905_read P buflen s = (out, s') \<Longrightarrow> reachable P s'"
| reachable_cycle: "reachable P s \<Longrightarrow> reachable P (workq_run P s)"
| reachable_env:
    "reachable P s \<Longrightarrow>
     reachable P (s\<lparr>i2c_reply := bus, hrt := now, orb_advertise_ret := handle,
                     user_float := mem, heap_ok := ok\<rparr>)"

text \<open>
  A tick count is an \<^verbatim>\<open>unsigned\<close> that the driver stores in the \<^verbatim>\<open>int\<close>
  \<^verbatim>\<open>_measure_ticks\<close>: the conversion of the build yields counts that an \<^verbatim>\<open>int\<close> holds.
\<close>

definition ticks_fit_int :: "platform \<Rightarrow> bool" where
  "ticks_fit_int P \<longleftrightarrow> (\<forall>usec. 0 \<le> sint (USEC2TICK P usec))"

text \<open>
  A legal interval: 0, which stands for manual mode, or at least the conversion latency
  in ticks.
\<close>

definition legal_interval :: "platform \<Rightarrow> LL905 \<Rightarrow> bool" where
  "legal_interval P s \<longleftrightarrow>
     measure_ticks s = 0 \<or> sint (conversion_ticks P) \<le> measure_ticks s"

subsection \<open>An instance of the parameters, and a driver to run\<close>

text \<open>
  Concrete values on which the theorems below are instantiated: a tick of one
  millisecond with a rounding conversion, reserved poll rates above every rate in Hz
  that the driver accepts, and a driver after \<^verbatim>\<open>init\<close> on a bus where every
  transaction gets the given reply.
\<close>

definition example_platform :: platform where
  "example_platform =
     \<lparr>USEC2TICK = (\<lambda>usec. (usec + 500) div 1000),
      SENSOR_POLLRATE_MANUAL = 1000000,
      SENSOR_POLLRATE_EXTERNAL = 1000001,
      SENSOR_POLLRATE_MAX = 1000002,
      SENSOR_POLLRATE_DEFAULT = 1000003,
      sizeof_range_finder_report = 40,
      I2C_ioctl = (\<lambda>cmd arg. - 25)\<rparr>"

definition example_driver :: "int \<times> uint8_t \<times> uint8_t \<Rightarrow> LL905" where
  "example_driver reply =
     \<lparr>min_distance = LL905_MIN_DISTANCE,
      max_distance = LL905_MAX_DISTANCE,
      work = None,
      reports = RingBuffer_new 2,
      sensor_ok = True,
      measure_ticks = 0,
      collect_phase = False,
      class_instance_id = 0,
      range_finder_topic = 3,
      comms_errors = 0,
      buffer_overflows = 0,
      pub = - 1,
      i2c_reply = (\<lambda>n. reply),
      i2c_count = 0,
      hrt = 0,
      orb_advertise_ret = 4,
      user_float = (\<lambda>a. Finite 0),
      heap_ok = True,
      trace = []\<rparr>"

text \<open>The example driver after the default poll rate has been set: it polls every 100 ticks.\<close>

definition polling_driver :: LL905 where
  "polling_driver = LL905_start ((example_driver (0, 0x03, 0xE8))\<lparr>measure_ticks := 100\<rparr>)"

section \<open>Properties\<close>

subsection \<open>The float product\<close>

lemma bitlen_numeral [simp]: "bitlen (numeral k) = Suc (bitlen (numeral k div 2))"
  by (subst bitlen.simps) simp

lemma bitlen_0 [simp]: "bitlen 0 = 0"
  by (subst bitlen.simps) simp

lemma bitlen_Suc_0 [simp]: "bitlen (Suc 0) = Suc 0"
  by (subst bitlen.simps) simp

lemma bitlen_lower: "0 < n \<Longrightarrow> 2 ^ (bitlen n - 1) \<le> n"
proof (induction n rule: bitlen.induct)
  case (1 n)
  show ?case
  proof (cases "n div 2 = 0")
    case True
    with 1(2) have "n = 1" by linarith
    then show ?thesis by simp
  next
    case False
    with 1 have ih: "2 ^ (bitlen (n div 2) - 1) \<le> n div 2" by simp
    from False have pos: "0 < bitlen (n div 2)" by (subst bitlen.simps) simp
    have "bitlen n = Suc (bitlen (n div 2))" using 1(2) by (subst bitlen.simps) simp
    then have "(2::nat) ^ (bitlen n - 1) = 2 * 2 ^ (bitlen (n div 2) - 1)"
      using pos by (cases "bitlen (n div 2)") simp_all
    also have "\<dots> \<le> 2 * (n div 2)" using ih by simp
    also have "\<dots> \<le> n" by simp
    finally show ?thesis .
  qed
qed

text \<open>Rounding to a multiple of \<open>2 ^ k\<close> moves a number by at most half of \<open>2 ^ k\<close>.\<close>

lemma round_half_even_upper: "2 * round_half_even k m \<le> 2 * m + 2 ^ k"
proof -
  define q where "q = m div 2 ^ k"
  define r where "r = m mod 2 ^ k"
  have m: "m = q * 2 ^ k + r"
    unfolding q_def r_def by (rule div_mult_mod_eq [symmetric])
  have "round_half_even k m =
      (if 2 ^ k < 2 * r \<or> (2 * r = 2 ^ k \<and> odd q) then (q + 1) * 2 ^ k else q * 2 ^ k)"
    by (simp add: round_half_even_def Let_def q_def r_def)
  then show ?thesis
    unfolding m by (auto simp: algebra_simps)
qed

lemma round_half_even_lower: "2 * m \<le> 2 * round_half_even k m + 2 ^ k"
proof -
  define q where "q = m div 2 ^ k"
  define r where "r = m mod 2 ^ k"
  have m: "m = q * 2 ^ k + r"
    unfolding q_def r_def by (rule div_mult_mod_eq [symmetric])
  have r: "r < 2 ^ k" by (simp add: r_def)
  have "round_half_even k m =
      (if 2 ^ k < 2 * r \<or> (2 * r = 2 ^ k \<and> odd q) then (q + 1) * 2 ^ k else q * 2 ^ k)"
    by (simp add: round_half_even_def Let_def q_def r_def)
  then show ?thesis
    unfolding m using r by (auto simp: algebra_simps)
qed

text \<open>Rounding to 24 digits changes a number by at most one part in \<open>2 ^ 24\<close>.\<close>

lemma round24_upper: "2 ^ 24 * round24 m \<le> (2 ^ 24 + 1) * m"
proof (cases "bitlen m \<le> 24")
  case True
  then show ?thesis by (simp add: round24_def)
next
  case False
  define k where "k = bitlen m - 24"
  from False have bl: "bitlen m - 1 = k + 23" by (simp add: k_def)
  from False have "0 < m" by (cases "m = 0") simp_all
  from bitlen_lower [OF this, unfolded bl] have low: "2 ^ k * 2 ^ 23 \<le> m"
    by (simp add: power_add)
  have "2 * round_half_even k m \<le> 2 * m + 2 ^ k" by (rule round_half_even_upper)
  then have "2 ^ 23 * (2 * round_half_even k m) \<le> 2 ^ 23 * (2 * m + 2 ^ k)"
    by (rule mult_le_mono2)
  also have "\<dots> \<le> 2 ^ 24 * m + m" using low by (simp add: algebra_simps)
  finally show ?thesis using False by (simp add: round24_def k_def algebra_simps)
qed

lemma round24_lower: "(2 ^ 24 - 1) * m \<le> 2 ^ 24 * round24 m"
proof (cases "bitlen m \<le> 24")
  case True
  then show ?thesis by (simp add: round24_def)
next
  case False
  define k where "k = bitlen m - 24"
  from False have bl: "bitlen m - 1 = k + 23" by (simp add: k_def)
  from False have "0 < m" by (cases "m = 0") simp_all
  from bitlen_lower [OF this, unfolded bl] have low: "2 ^ k * 2 ^ 23 \<le> m"
    by (simp add: power_add)
  have "2 * m \<le> 2 * round_half_even k m + 2 ^ k" by (rule round_half_even_lower)
  then have "2 ^ 23 * (2 * m) \<le> 2 ^ 23 * (2 * round_half_even k m + 2 ^ k)"
    by (rule mult_le_mono2)
  also have "\<dots> \<le> 2 ^ 24 * round_half_even k m + m" using low by (simp add: algebra_simps)
  finally have "2 ^ 24 * m \<le> 2 ^ 24 * round_half_even k m + m" by simp
  then show ?thesis using False by (simp add: round24_def k_def algebra_simps)
qed

text \<open>
  The float product is the exact hundredth of the count up to a relative error of
  \<open>2 ^ - 23\<close>: the error of the literal \<^verbatim>\<open>0.01f\<close> and that of the rounding together.
\<close>

lemma times_0_01f_accuracy:
  "\<exists>m. times_0_01f c = Finite m \<and>
       \<bar>m - of_nat (unat c) / 100\<bar> \<le> of_nat (unat c) / 100 / 2 ^ 23"
proof -
  define d where "d = unat c"
  define R where "R = round24 (d * float_0_01_significand)"
  have up: "2 ^ 24 * R \<le> (2 ^ 24 + 1) * (d * 10737418)"
    unfolding R_def float_0_01_significand_def by (rule round24_upper)
  have lo: "(2 ^ 24 - 1) * (d * 10737418) \<le> 2 ^ 24 * R"
    unfolding R_def float_0_01_significand_def by (rule round24_lower)
  have U: "100 * 2 ^ 23 * R \<le> (2 ^ 23 + 1) * 2 ^ 30 * d"
    using up by simp
  have L: "(2 ^ 23 - 1) * 2 ^ 30 * d \<le> 100 * 2 ^ 23 * R"
    using lo by simp
  from U have "(of_nat (100 * 2 ^ 23 * R) :: rat) \<le> of_nat ((2 ^ 23 + 1) * 2 ^ 30 * d)"
    by (simp only: of_nat_le_iff)
  then have U': "(of_nat R :: rat) / 2 ^ 30 - of_nat d / 100 \<le> of_nat d / 100 / 2 ^ 23"
    by (simp add: field_simps)
  from L have "(of_nat ((2 ^ 23 - 1) * 2 ^ 30 * d) :: rat) \<le> of_nat (100 * 2 ^ 23 * R)"
    by (simp only: of_nat_le_iff)
  then have L': "- (of_nat d / 100 / 2 ^ 23) \<le> (of_nat R :: rat) / 2 ^ 30 - of_nat d / 100"
    by (simp add: field_simps)
  have "times_0_01f c = Finite (of_nat R / 2 ^ 30)"
    by (simp add: times_0_01f_def R_def d_def)
  moreover have "\<bar>(of_nat R :: rat) / 2 ^ 30 - of_nat d / 100\<bar> \<le> of_nat d / 100 / 2 ^ 23"
    using U' L' by (simp only: abs_le_iff) simp
  ultimately show ?thesis unfolding d_def by blast
qed

lemma times_0_01f_500: "times_0_01f 500 = Finite 5"
  by (simp add: times_0_01f_def float_0_01_significand_def round24_def round_half_even_def)

lemma times_0_01f_1000: "times_0_01f 1000 = Finite 10"
  by (simp add: times_0_01f_def float_0_01_significand_def round24_def round_half_even_def)

subsection \<open>The count read from the device\<close>

lemma unat_uint8_less: "unat (w :: uint8_t) < 256"
  using unsigned_less [of w, where 'a = nat] by simp

lemma unat_ucast_low_byte: "unat (ucast (lo :: uint8_t) :: uint16_t) = unat lo"
proof -
  have "unat lo < 2 ^ 16" using unat_uint8_less [of lo] by simp
  then show ?thesis by (simp add: unsigned_ucast_eq take_bit_nat_eq_self)
qed

lemma unat_push_high_byte:
  "unat (push_bit 8 (ucast (hi :: uint8_t) :: uint16_t)) = 256 * unat hi"
proof -
  have less: "256 * unat hi < 2 ^ 16" using unat_uint8_less [of hi] by simp
  have "unat (push_bit 8 (ucast hi :: uint16_t)) =
      take_bit 16 (push_bit 8 (unat (ucast hi :: uint16_t)))"
    by (simp only: unsigned_push_bit_eq) simp
  also have "\<dots> = take_bit 16 (256 * unat hi)"
    by (simp only: unat_ucast_low_byte push_bit_eq_mult) (simp add: mult.commute)
  also have "\<dots> = 256 * unat hi"
    using less by (simp only: take_bit_nat_eq_self)
  finally show ?thesis .
qed

lemma distance_count_add: "distance_count hi lo = push_bit 8 (ucast hi) + ucast lo"
  unfolding distance_count_def
  by (rule disjunctive_add [symmetric]) (auto simp: bit_simps dest: bit_imp_le_length)

lemma distance_count_big_endian: "unat (distance_count hi lo) = 256 * unat hi + unat lo"
proof -
  have "256 * unat hi + unat lo < 2 ^ 16"
    using unat_uint8_less [of hi] unat_uint8_less [of lo] by simp
  then show ?thesis
    by (simp add: distance_count_add unat_word_ariths unat_push_high_byte unat_ucast_low_byte)
qed

lemma distance_count_500: "distance_count 0x01 0xF4 = 500"
  by (simp add: distance_count_def)

lemma distance_count_1000: "distance_count 0x03 0xE8 = 1000"
  by (simp add: distance_count_def)

subsection \<open>Collecting\<close>

lemmas environment_defs = emit_def transfer_def work_queue_def work_cancel_def
  perf_count_comms_errors_def perf_count_buffer_overflows_def

lemma collect_success:
  assumes "i2c_reply s (i2c_count s) = (ret, val0, val1)" and "0 \<le> ret"
  shows "LL905_collect s = (OK, snd (LL905_collect s))"
    and "items (reports (snd (LL905_collect s))) \<noteq> []"
    and "last (items (reports (snd (LL905_collect s)))) = collect_report s val0 val1"
    and "min_distance (snd (LL905_collect s)) = min_distance s"
    and "max_distance (snd (LL905_collect s)) = max_distance s"
  using assms
  by (auto simp: LL905_collect_def environment_defs Let_def RingBuffer_force_def
      collect_report_def get_minimum_distance_def get_maximum_distance_def
      split: prod.splits)

lemma collect_OK_reply:
  assumes "LL905_collect s = (OK, s')"
  shows "0 \<le> fst (i2c_reply s (i2c_count s))"
  using assms
  by (auto simp: LL905_collect_def environment_defs OK_def Let_def
      split: prod.splits if_splits)

lemma example_report_500:
  "collect_report (example_driver reply) 0x01 0xF4 =
     \<lparr>timestamp = 0, rtype = RANGE_FINDER_TYPE_LASER, error_count = 0,
      distance = Finite 5, valid = 1\<rparr>"
  by (simp add: collect_report_def distance_count_500 times_0_01f_500 example_driver_def
      get_minimum_distance_def get_maximum_distance_def float_greater_def
      LL905_MIN_DISTANCE_def LL905_MAX_DISTANCE_def)

lemma collect_report_phase_ticks [simp]:
  "collect_report (s\<lparr>collect_phase := p, measure_ticks := t\<rparr>) val0 val1 =
   collect_report s val0 val1"
  by (simp add: collect_report_def get_minimum_distance_def get_maximum_distance_def)

lemma example_driver_fields:
  "i2c_reply (example_driver reply) n = reply"
  "i2c_count (example_driver reply) = 0"
  "trace (example_driver reply) = []"
  "range_finder_topic (example_driver reply) = 3"
  "measure_ticks (example_driver reply) = 0"
  "\<not> collect_phase (example_driver reply)"
  "work (example_driver reply) = None"
  "comms_errors (example_driver reply) = 0"
  by (simp_all add: example_driver_def)

text \<open>
  C1. A collect that succeeds leaves its report as the newest entry of the ring, and
  the valid flag of that report is 1 if the distance in meters lies strictly between
  the minimum and the maximum distance configured at the time, and 0 otherwise.
\<close>

theorem collect_valid_flag:
  assumes "LL905_collect s = (OK, s')"
  shows "items (reports s') \<noteq> [] \<and>
    min_distance s' = min_distance s \<and> max_distance s' = max_distance s \<and>
    valid (last (items (reports s'))) =
      (if float_less (min_distance s) (distance (last (items (reports s'))))
          \<and> float_less (distance (last (items (reports s')))) (max_distance s)
       then 1 else 0)"
proof -
  obtain ret val0 val1 where reply: "i2c_reply s (i2c_count s) = (ret, val0, val1)"
    by (cases "i2c_reply s (i2c_count s)")
  with collect_OK_reply [OF assms] have "0 \<le> ret" by simp
  note facts = collect_success [OF reply this]
  from assms have s': "s' = snd (LL905_collect s)" by simp
  show ?thesis
    unfolding s' using facts(2-5)
    by (simp add: collect_report_def get_minimum_distance_def get_maximum_distance_def
        float_greater_def Let_def)
qed

text \<open>
  The device answers 0x01F4, 500 centimeters: the report says 5 meters, which is within
  the default thresholds.
\<close>

theorem collect_valid_flag_witness:
  "LL905_collect (example_driver (0, 0x01, 0xF4)) =
     (OK, snd (LL905_collect (example_driver (0, 0x01, 0xF4)))) \<and>
   distance (last (items (reports (snd (LL905_collect (example_driver (0, 0x01, 0xF4)))))))
     = Finite 5 \<and>
   valid (last (items (reports (snd (LL905_collect (example_driver (0, 0x01, 0xF4)))))))
     = 1"
proof -
  have reply: "i2c_reply (example_driver (0, 0x01, 0xF4))
      (i2c_count (example_driver (0, 0x01, 0xF4))) = (0, 0x01, 0xF4)"
    by (simp add: example_driver_def)
  note facts = collect_success [OF reply order_refl]
  from collect_valid_flag [OF facts(1)] facts(1,3) show ?thesis
    by (simp add: example_report_500)
qed

text \<open>
  C4. When the read of the distance registers succeeds, the count is the two bytes
  taken big-endian (256 times the first plus the second), and the distance of the
  report is the float product of the count and \<^verbatim>\<open>0.01f\<close>, which is the hundredth of
  the count up to one part in \<open>2 ^ 23\<close>; for the count 1000 it is exactly 10 meters.
\<close>

theorem collect_distance_in_meters:
  assumes "i2c_reply s (i2c_count s) = (ret, val0, val1)" and "0 \<le> ret"
  shows "LL905_collect s = (OK, snd (LL905_collect s)) \<and>
    unat (distance_count val0 val1) = 256 * unat val0 + unat val1 \<and>
    distance (last (items (reports (snd (LL905_collect s))))) =
      times_0_01f (distance_count val0 val1) \<and>
    (\<exists>m. times_0_01f (distance_count val0 val1) = Finite m \<and>
       \<bar>m - of_nat (unat (distance_count val0 val1)) / 100\<bar>
         \<le> of_nat (unat (distance_count val0 val1)) / 100 / 2 ^ 23) \<and>
    (distance_count val0 val1 = 1000 \<longrightarrow>
       distance (last (items (reports (snd (LL905_collect s))))) = Finite 10)"
proof -
  note facts = collect_success [OF assms]
  have d: "distance (last (items (reports (snd (LL905_collect s))))) =
      times_0_01f (distance_count val0 val1)"
    by (simp add: facts(3) collect_report_def Let_def)
  show ?thesis
    using facts(1) d times_0_01f_accuracy [of "distance_count val0 val1"]
    by (simp add: distance_count_big_endian times_0_01f_1000)
qed

text \<open>The device answers 0x03E8, the count 1000: the report says 10 meters.\<close>

theorem collect_distance_in_meters_witness:
  "i2c_reply (example_driver (0, 0x03, 0xE8)) (i2c_count (example_driver (0, 0x03, 0xE8)))
     = (0, 0x03, 0xE8) \<and>
   unat (distance_count 0x03 0xE8) = 1000 \<and>
   distance (last (items (reports (snd (LL905_collect (example_driver (0, 0x03, 0xE8)))))))
     = Finite 10"
proof -
  have reply: "i2c_reply (example_driver (0, 0x03, 0xE8))
      (i2c_count (example_driver (0, 0x03, 0xE8))) = (0, 0x03, 0xE8)"
    by (simp add: example_driver_def)
  from collect_distance_in_meters [OF reply order_refl] reply show ?thesis
    by (simp add: distance_count_1000 times_0_01f_1000)
qed

subsection \<open>The cycle\<close>

lemma collect_failure:
  assumes "i2c_reply s (i2c_count s) = (ret, val0, val1)" and "ret < 0"
  shows "LL905_collect s =
    (ret, s\<lparr>comms_errors := comms_errors s + 1, i2c_count := Suc (i2c_count s),
            trace := trace s @ [Perf_begin, I2C_transfer [LL905_DISTHIGH_REG] 2,
              Log ''error reading from sensor: %d'', Perf_end]\<rparr>)"
  using assms by (simp add: LL905_collect_def environment_defs)

lemma collect_success_frame:
  assumes "i2c_reply s (i2c_count s) = (ret, val0, val1)" and "0 \<le> ret"
  shows "i2c_count (snd (LL905_collect s)) = Suc (i2c_count s)"
    and "i2c_reply (snd (LL905_collect s)) = i2c_reply s"
    and "comms_errors (snd (LL905_collect s)) = comms_errors s"
    and "measure_ticks (snd (LL905_collect s)) = measure_ticks s"
    and "collect_phase (snd (LL905_collect s)) = collect_phase s"
    and "work (snd (LL905_collect s)) = work s"
    and "pub (snd (LL905_collect s)) = pub s"
    and "trace (snd (LL905_collect s)) = trace s @
          [Perf_begin, I2C_transfer [LL905_DISTHIGH_REG] 2] @
          (if 0 \<le> range_finder_topic s
           then [Orb_publish_range_finder (collect_report s val0 val1)] else []) @
          [Poll_notify, Perf_end]"
  using assms
  by (auto simp: LL905_collect_def environment_defs Let_def RingBuffer_force_def
      collect_report_def get_minimum_distance_def get_maximum_distance_def
      split: prod.splits)

lemma measure_result:
  "LL905_measure s =
     (if OK \<noteq> fst (i2c_reply s (i2c_count s))
      then (fst (i2c_reply s (i2c_count s)),
            s\<lparr>comms_errors := comms_errors s + 1, i2c_count := Suc (i2c_count s),
              trace := trace s @ [I2C_transfer [LL905_MEASURE_REG, LL905_MSRREG_ACQUIRE] 0,
                Log ''i2c::transfer returned %d'']\<rparr>)
      else (OK, s\<lparr>i2c_count := Suc (i2c_count s),
              trace := trace s @ [I2C_transfer [LL905_MEASURE_REG, LL905_MSRREG_ACQUIRE] 0]\<rparr>))"
  by (cases "i2c_reply s (i2c_count s)") (simp add: LL905_measure_def environment_defs)

lemma measurement_phase_result:
  "measurement_phase P s =
     (if OK \<noteq> fst (i2c_reply s (i2c_count s))
      then s\<lparr>work := Some (conversion_ticks P), collect_phase := True,
             comms_errors := comms_errors s + 1, i2c_count := Suc (i2c_count s),
             trace := trace s @ [I2C_transfer [LL905_MEASURE_REG, LL905_MSRREG_ACQUIRE] 0,
               Log ''i2c::transfer returned %d'', Log ''measure error'',
               Work_queue (conversion_ticks P)]\<rparr>
      else s\<lparr>work := Some (conversion_ticks P), collect_phase := True,
             i2c_count := Suc (i2c_count s),
             trace := trace s @ [I2C_transfer [LL905_MEASURE_REG, LL905_MSRREG_ACQUIRE] 0,
               Work_queue (conversion_ticks P)]\<rparr>)"
  by (simp add: measurement_phase_def measure_result environment_defs Let_def)

lemma example_conversion_ticks: "conversion_ticks example_platform = 100"
  by (simp add: conversion_ticks_def example_platform_def LL905_CONVERSION_INTERVAL_def)

lemma start_frame:
  "measure_ticks (LL905_start s) = measure_ticks s"
  "work (LL905_start s) = Some 1"
  "\<not> collect_phase (LL905_start s)"
  "items (reports (LL905_start s)) = []"
  by (simp_all add: LL905_start_def environment_defs Let_def RingBuffer_flush_def)

lemma cycle_not_collecting: "\<not> collect_phase s \<Longrightarrow> LL905_cycle P s = measurement_phase P s"
  by (simp add: LL905_cycle_def)

lemma measurement_phase_fields:
  "collect_phase (measurement_phase P s)"
  "work (measurement_phase P s) = Some (conversion_ticks P)"
  "measure_ticks (measurement_phase P s) = measure_ticks s"
  by (simp_all add: measurement_phase_result)

text \<open>
  C2. When \<^verbatim>\<open>cycle\<close> runs in the collection phase and the read of the distance
  registers fails, it does what \<^verbatim>\<open>start\<close> does and returns: the phase is the
  measurement phase again, the ring is empty, a cycle is queued one tick ahead, the
  comms-error counter has gone up by one, and the bus has seen the one failed read and
  no other transaction. The cycle that is queued, when the work queue runs it, starts
  a measurement and queues the collection.
\<close>

theorem cycle_collect_failure_restarts:
  assumes "collect_phase s" and "i2c_reply s (i2c_count s) = (ret, val0, val1)" and "ret < 0"
  shows "LL905_cycle P s = LL905_start (emit (Log ''collection error'') (snd (LL905_collect s))) \<and>
    \<not> collect_phase (LL905_cycle P s) \<and>
    items (reports (LL905_cycle P s)) = [] \<and>
    work (LL905_cycle P s) = Some 1 \<and>
    comms_errors (LL905_cycle P s) = comms_errors s + 1 \<and>
    i2c_count (LL905_cycle P s) = Suc (i2c_count s) \<and>
    measure_ticks (LL905_cycle P s) = measure_ticks s \<and>
    trace (LL905_cycle P s) = trace s @
      [Perf_begin, I2C_transfer [LL905_DISTHIGH_REG] 2,
       Log ''error reading from sensor: %d'', Perf_end, Log ''collection error'',
       Work_queue 1,
       if 0 < pub s then Orb_publish_subsystem_info else Orb_advertise_subsystem_info] \<and>
    collect_phase (workq_run P (LL905_cycle P s)) \<and>
    work (workq_run P (LL905_cycle P s)) = Some (conversion_ticks P)"
proof -
  from assms(3) have ne: "OK \<noteq> ret" by (simp add: OK_def)
  have c: "LL905_cycle P s = LL905_start (emit (Log ''collection error'') (snd (LL905_collect s)))"
    using assms(1) ne by (simp add: LL905_cycle_def collect_failure [OF assms(2,3)])
  have fields: "\<not> collect_phase (LL905_cycle P s)" "work (LL905_cycle P s) = Some 1"
    unfolding c by (simp_all add: start_frame)
  have next_cycle: "workq_run P (LL905_cycle P s) =
      measurement_phase P ((LL905_cycle P s)\<lparr>work := None\<rparr>)"
    using fields by (simp add: workq_run_def cycle_trampoline_def cycle_not_collecting)
  show ?thesis
    unfolding next_cycle
    unfolding c
    by (simp add: collect_failure [OF assms(2,3)] LL905_start_def environment_defs Let_def
        RingBuffer_flush_def measurement_phase_fields)
qed

text \<open>The device refuses the read (the return value is \<open>- 5\<close>).\<close>

theorem cycle_collect_failure_restarts_witness:
  "collect_phase ((example_driver (- 5, 0, 0))\<lparr>collect_phase := True\<rparr>) \<and>
   \<not> collect_phase (LL905_cycle example_platform ((example_driver (- 5, 0, 0))\<lparr>collect_phase := True\<rparr>)) \<and>
   work (LL905_cycle example_platform ((example_driver (- 5, 0, 0))\<lparr>collect_phase := True\<rparr>)) = Some 1 \<and>
   comms_errors (LL905_cycle example_platform ((example_driver (- 5, 0, 0))\<lparr>collect_phase := True\<rparr>)) = 1"
proof -
  have 1: "collect_phase ((example_driver (- 5, 0, 0))\<lparr>collect_phase := True\<rparr>)" by simp
  have 2: "i2c_reply ((example_driver (- 5, 0, 0))\<lparr>collect_phase := True\<rparr>)
     (i2c_count ((example_driver (- 5, 0, 0))\<lparr>collect_phase := True\<rparr>)) = (- 5, 0, 0)"
    by (simp add: example_driver_def)
  have 3: "(- 5 :: int) < 0" by simp
  have 4: "comms_errors ((example_driver (- 5, 0, 0))\<lparr>collect_phase := True\<rparr>) = 0"
    by (simp add: example_driver_def)
  from cycle_collect_failure_restarts [OF 1 2 3, of example_platform, THEN conjunct2]
  show ?thesis
    by (simp add: 4)
qed

text \<open>
  C3. When \<^verbatim>\<open>cycle\<close> runs in the measurement phase, or falls through to it after a
  collection that succeeded with an interval that leaves no gap, it sends the
  acquisition command once, sets the phase to collection and queues the next cycle
  after the conversion latency in ticks, as the last thing it does; when the command
  fails the failure is logged, and the phase and the queueing are the same.
\<close>

theorem cycle_measurement_phase:
  assumes "\<not> collect_phase s \<or>
     (0 \<le> fst (i2c_reply s (i2c_count s)) \<and> measure_ticks s \<le> sint (conversion_ticks P))"
  shows "collect_phase (LL905_cycle P s) \<and>
    work (LL905_cycle P s) = Some (conversion_ticks P) \<and>
    trace (LL905_cycle P s) = trace s @
      (if collect_phase s
       then [Perf_begin, I2C_transfer [LL905_DISTHIGH_REG] 2] @
            (if 0 \<le> range_finder_topic s
             then [Orb_publish_range_finder
                     (collect_report s (fst (snd (i2c_reply s (i2c_count s))))
                        (snd (snd (i2c_reply s (i2c_count s)))))]
             else []) @
            [Poll_notify, Perf_end]
       else []) @
      [I2C_transfer [LL905_MEASURE_REG, LL905_MSRREG_ACQUIRE] 0] @
      (if OK = fst (i2c_reply s (if collect_phase s then Suc (i2c_count s) else i2c_count s))
       then []
       else [Log ''i2c::transfer returned %d'', Log ''measure error'']) @
      [Work_queue (conversion_ticks P)]"
proof (cases "collect_phase s")
  case False
  then have c: "LL905_cycle P s = measurement_phase P s"
    by (simp add: LL905_cycle_def)
  show ?thesis
    unfolding c measurement_phase_result using False by simp
next
  case True
  with assms have ok: "0 \<le> fst (i2c_reply s (i2c_count s))"
    and gap: "measure_ticks s \<le> sint (conversion_ticks P)" by simp_all
  obtain ret val0 val1 where reply: "i2c_reply s (i2c_count s) = (ret, val0, val1)"
    by (cases "i2c_reply s (i2c_count s)")
  with ok have ret: "0 \<le> ret" by simp
  note col = collect_success(1) [OF reply ret]
  note frame = collect_success_frame [OF reply ret]
  have c: "LL905_cycle P s =
      measurement_phase P ((snd (LL905_collect s))\<lparr>collect_phase := False\<rparr>)"
    unfolding LL905_cycle_def using True gap frame(4)
    by (subst col) (simp add: Let_def)
  show ?thesis
    unfolding c measurement_phase_result using True
    by (simp add: frame reply)
qed

text \<open>
  A driver in the measurement phase whose device refuses the acquisition command: the
  next cycle is queued all the same. And a driver in the collection phase at the
  default rate, whose device answers 0x01F4: the report is published and the
  measurement follows in the same cycle.
\<close>

theorem cycle_measurement_phase_witness:
  "\<not> collect_phase (example_driver (- 5, 0, 0)) \<and>
   collect_phase (LL905_cycle example_platform (example_driver (- 5, 0, 0))) \<and>
   work (LL905_cycle example_platform (example_driver (- 5, 0, 0))) = Some 100 \<and>
   trace (LL905_cycle example_platform (example_driver (- 5, 0, 0))) =
     [I2C_transfer [0x00, 0x04] 0, Log ''i2c::transfer returned %d'', Log ''measure error'',
      Work_queue 100] \<and>
   collect_phase ((example_driver (0, 0x01, 0xF4))\<lparr>collect_phase := True, measure_ticks := 100\<rparr>) \<and>
   measure_ticks ((example_driver (0, 0x01, 0xF4))\<lparr>collect_phase := True, measure_ticks := 100\<rparr>)
     \<le> sint (conversion_ticks example_platform) \<and>
   collect_phase (LL905_cycle example_platform
     ((example_driver (0, 0x01, 0xF4))\<lparr>collect_phase := True, measure_ticks := 100\<rparr>)) \<and>
   work (LL905_cycle example_platform
     ((example_driver (0, 0x01, 0xF4))\<lparr>collect_phase := True, measure_ticks := 100\<rparr>))
     = Some 100 \<and>
   trace (LL905_cycle example_platform
     ((example_driver (0, 0x01, 0xF4))\<lparr>collect_phase := True, measure_ticks := 100\<rparr>)) =
     [Perf_begin, I2C_transfer [0x8F] 2,
      Orb_publish_range_finder
        \<lparr>timestamp = 0, rtype = RANGE_FINDER_TYPE_LASER, error_count = 0,
         distance = Finite 5, valid = 1\<rparr>,
      Poll_notify, Perf_end, I2C_transfer [0x00, 0x04] 0, Work_queue 100]"
proof -
  let ?s = "example_driver (- 5, 0, 0)"
  let ?t = "(example_driver (0, 0x01, 0xF4))\<lparr>collect_phase := True, measure_ticks := 100\<rparr>"
  note 2 = example_driver_fields
  note 3 = example_driver_fields
  have 1: "\<not> collect_phase ?s" by (simp add: 2)
  have 4: "0 \<le> fst (i2c_reply ?t (i2c_count ?t)) \<and>
      measure_ticks ?t \<le> sint (conversion_ticks example_platform)"
    by (simp add: 2 example_conversion_ticks)
  have a: "collect_phase (LL905_cycle example_platform ?s) \<and>
      work (LL905_cycle example_platform ?s) = Some 100 \<and>
      trace (LL905_cycle example_platform ?s) =
        [I2C_transfer [0x00, 0x04] 0, Log ''i2c::transfer returned %d'',
         Log ''measure error'', Work_queue 100]"
    using cycle_measurement_phase [OF disjI1, OF 1, of example_platform] 1
    by (simp add: 2 3 example_conversion_ticks OK_def LL905_MEASURE_REG_def
        LL905_MSRREG_ACQUIRE_def)
  have b: "collect_phase (LL905_cycle example_platform ?t) \<and>
      work (LL905_cycle example_platform ?t) = Some 100 \<and>
      trace (LL905_cycle example_platform ?t) =
        [Perf_begin, I2C_transfer [0x8F] 2,
         Orb_publish_range_finder
           \<lparr>timestamp = 0, rtype = RANGE_FINDER_TYPE_LASER, error_count = 0,
            distance = Finite 5, valid = 1\<rparr>,
         Poll_notify, Perf_end, I2C_transfer [0x00, 0x04] 0, Work_queue 100]"
    using cycle_measurement_phase [OF disjI2, OF 4]
    by (simp add: 2 3 example_conversion_ticks OK_def LL905_MEASURE_REG_def
        LL905_MSRREG_ACQUIRE_def LL905_DISTHIGH_REG_def example_report_500)
  from a b 1 4 show ?thesis by simp
qed

subsection \<open>The poll rate\<close>

lemma ioctl_no_fault: "LL905_ioctl P cmd arg s \<noteq> Inl Division_by_zero"
  by (cases cmd)
    (auto simp: LL905_ioctl.simps unsigned_div_def int_div_def Let_def split: option.splits)

lemma ioctl_explicit_hz:
  assumes "arg \<noteq> SENSOR_POLLRATE_MANUAL P" and "arg \<noteq> SENSOR_POLLRATE_EXTERNAL P"
    and "arg \<noteq> 0" and "arg \<noteq> SENSOR_POLLRATE_MAX P" and "arg \<noteq> SENSOR_POLLRATE_DEFAULT P"
  shows "LL905_ioctl P SENSORIOCSPOLLRATE arg s =
     (if USEC2TICK P (1000000 div arg) < conversion_ticks P then Inr (- EINVAL, s)
      else Inr (OK,
        if measure_ticks s = 0
        then LL905_start (s\<lparr>measure_ticks := sint (USEC2TICK P (1000000 div arg))\<rparr>)
        else s\<lparr>measure_ticks := sint (USEC2TICK P (1000000 div arg))\<rparr>))"
  using assms by (simp add: LL905_ioctl.simps unsigned_div_def Let_def)

lemma example_usec2tick_2hz: "USEC2TICK example_platform 500000 = 500"
  by (simp add: example_platform_def)

lemma example_usec2tick_11hz: "USEC2TICK example_platform 90909 = 91"
  by (simp add: example_platform_def)

lemma ioctl_get_rate:
  "LL905_ioctl P SENSORIOCGPOLLRATE arg s =
     Inr (if measure_ticks s = 0 then sint (SENSOR_POLLRATE_MANUAL P)
          else 1000 sdiv measure_ticks s, s)"
  by (simp add: LL905_ioctl.simps int_div_def)

lemma example_set_default_rate:
  "LL905_ioctl example_platform SENSORIOCSPOLLRATE 1000003 (example_driver (0, 0x03, 0xE8))
     = Inr (OK, polling_driver)"
proof -
  have "measure_ticks (example_driver (0, 0x03, 0xE8)) = 0"
    by (simp add: example_driver_def)
  then show ?thesis
    by (simp add: LL905_ioctl.simps polling_driver_def example_conversion_ticks Let_def)
      (simp add: example_platform_def)
qed

lemma polling_driver_ticks: "measure_ticks polling_driver = 100"
  by (simp add: polling_driver_def start_frame)

text \<open>
  C8, as amended. The poll rate that \<^verbatim>\<open>ioctl\<close> reports is \<^verbatim>\<open>SENSOR_POLLRATE_MANUAL\<close>
  when the interval is 0, and otherwise the quotient of 1000 by the interval in ticks
  (the rate in Hz when a tick is a millisecond), not the interval.
\<close>

theorem get_rate_result:
  "LL905_ioctl P SENSORIOCGPOLLRATE arg s =
     Inr (if measure_ticks s = 0 then sint (SENSOR_POLLRATE_MANUAL P)
          else 1000 sdiv measure_ticks s, s)"
  by (rule ioctl_get_rate)

text \<open>With the interval 0 the answer is the manual rate; with 100 ticks it is 10.\<close>

theorem get_rate_result_witness:
  "LL905_ioctl example_platform SENSORIOCGPOLLRATE 0 (example_driver (0, 0x03, 0xE8))
     = Inr (1000000, example_driver (0, 0x03, 0xE8)) \<and>
   LL905_ioctl example_platform SENSORIOCGPOLLRATE 0 polling_driver = Inr (10, polling_driver)"
proof -
  have "measure_ticks (example_driver (0, 0x03, 0xE8)) = 0"
    by (simp add: example_driver_def)
  moreover have "sint (SENSOR_POLLRATE_MANUAL example_platform) = 1000000"
    by (simp add: example_platform_def)
  ultimately show ?thesis
    using get_rate_result [of example_platform 0 "example_driver (0, 0x03, 0xE8)"]
      get_rate_result [of example_platform 0 polling_driver]
    by (simp add: polling_driver_ticks)
qed

text \<open>
  C8 as stated fails: with an interval of 100 ticks the answer is 10, not 100.
\<close>

theorem get_rate_is_not_interval_counterexample:
  "measure_ticks polling_driver = 100 \<and>
   LL905_ioctl example_platform SENSORIOCGPOLLRATE 0 polling_driver = Inr (10, polling_driver) \<and>
   LL905_ioctl example_platform SENSORIOCGPOLLRATE 0 polling_driver
     \<noteq> Inr (measure_ticks polling_driver, polling_driver)"
  by (simp add: ioctl_get_rate polling_driver_ticks)

text \<open>
  C10. No \<^verbatim>\<open>ioctl\<close> divides by zero. The poll rate 0 is refused with \<open>- EINVAL\<close> before
  \<^verbatim>\<open>1000000 / arg\<close> is reached, and with the interval 0 the manual rate is returned
  before \<^verbatim>\<open>1000 / _measure_ticks\<close> is reached.
\<close>

theorem poll_rate_divisions_guarded:
  "LL905_ioctl P cmd arg s \<noteq> Inl Division_by_zero \<and>
   (SENSOR_POLLRATE_MANUAL P \<noteq> 0 \<longrightarrow>
      LL905_ioctl P SENSORIOCSPOLLRATE 0 s = Inr (- EINVAL, s)) \<and>
   (measure_ticks s = 0 \<longrightarrow>
      LL905_ioctl P SENSORIOCGPOLLRATE arg s = Inr (sint (SENSOR_POLLRATE_MANUAL P), s))"
  by (simp add: ioctl_no_fault ioctl_get_rate) (simp add: LL905_ioctl.simps)

text \<open>The rate 0, and the rate asked of a driver whose interval is 0.\<close>

theorem poll_rate_divisions_guarded_witness:
  "SENSOR_POLLRATE_MANUAL example_platform \<noteq> 0 \<and>
   measure_ticks (example_driver (0, 0x03, 0xE8)) = 0 \<and>
   LL905_ioctl example_platform SENSORIOCSPOLLRATE 0 (example_driver (0, 0x03, 0xE8))
     = Inr (- EINVAL, example_driver (0, 0x03, 0xE8)) \<and>
   LL905_ioctl example_platform SENSORIOCGPOLLRATE 0 (example_driver (0, 0x03, 0xE8))
     = Inr (1000000, example_driver (0, 0x03, 0xE8))"
proof -
  have 1: "SENSOR_POLLRATE_MANUAL example_platform \<noteq> 0"
    by (simp add: example_platform_def)
  have 2: "measure_ticks (example_driver (0, 0x03, 0xE8)) = 0"
    by (simp add: example_driver_def)
  have 3: "sint (SENSOR_POLLRATE_MANUAL example_platform) = 1000000"
    by (simp add: example_platform_def)
  from poll_rate_divisions_guarded
    [of example_platform SENSORIOCGPOLLRATE 0 "example_driver (0, 0x03, 0xE8)"] 1 2 3
  show ?thesis by simp
qed

subsection \<open>The interval and the engine\<close>

lemma sint_nonneg_eq_uint: "0 \<le> sint w \<Longrightarrow> sint w = uint w"
  for w :: "'a::len word"
proof -
  assume nonneg: "0 \<le> sint w"
  have "sint w < 2 ^ (LENGTH('a) - 1)" by (rule sint_lt)
  also have "(2::int) ^ (LENGTH('a) - 1) \<le> 2 ^ LENGTH('a)"
    by (rule power_increasing) simp_all
  finally have "take_bit LENGTH('a) (sint w) = sint w"
    using nonneg by (simp add: take_bit_int_eq_self)
  then show ?thesis by (simp add: uint_sint)
qed

lemma sint_mono_nonneg:
  "0 \<le> sint a \<Longrightarrow> 0 \<le> sint b \<Longrightarrow> a \<le> b \<Longrightarrow> sint a \<le> sint b"
  by (simp add: sint_nonneg_eq_uint word_le_def)

lemma measure_frame:
  "measure_ticks (snd (LL905_measure s)) = measure_ticks s"
  "work (snd (LL905_measure s)) = work s"
  by (simp_all add: measure_result)

lemma collect_frame:
  "measure_ticks (snd (LL905_collect s)) = measure_ticks s"
  "work (snd (LL905_collect s)) = work s"
  by (auto simp: LL905_collect_def environment_defs Let_def RingBuffer_force_def
      split: prod.splits)

lemma cycle_frame:
  "measure_ticks (LL905_cycle P s) = measure_ticks s"
  "work (LL905_cycle P s) \<noteq> None"
  by (auto simp: LL905_cycle_def Let_def measurement_phase_fields start_frame emit_def
      work_queue_def collect_frame [of s, symmetric] split: prod.splits)


lemma read_frame:
  "measure_ticks (snd (LL905_read P buflen s)) = measure_ticks s"
  "work (snd (LL905_read P buflen s)) = work s"
proof -
  let ?s1 = "s\<lparr>reports := RingBuffer_flush (reports s)\<rparr>"
  let ?s3 = "emit (Usleep LL905_CONVERSION_INTERVAL) (snd (LL905_measure ?s1))"
  have m: "measure_ticks (snd (LL905_collect ?s3)) = measure_ticks s"
    "work (snd (LL905_collect ?s3)) = work s"
    by (simp_all add: collect_frame measure_frame emit_def)
  have m1: "measure_ticks (snd (LL905_measure ?s1)) = measure_ticks s"
    "work (snd (LL905_measure ?s1)) = work s"
    by (simp_all add: measure_frame)
  show "measure_ticks (snd (LL905_read P buflen s)) = measure_ticks s"
    using m m1
    by (auto simp: LL905_read_def Let_def split: prod.splits option.splits)
  show "work (snd (LL905_read P buflen s)) = work s"
    using m m1
    by (auto simp: LL905_read_def Let_def split: prod.splits option.splits)
qed

lemma workq_run_frame:
  "measure_ticks (workq_run P s) = measure_ticks s"
  "work s \<noteq> None \<Longrightarrow> work (workq_run P s) \<noteq> None"
  "work s = None \<Longrightarrow> workq_run P s = s"
  using cycle_frame(2) [of P "s\<lparr>work := None\<rparr>"]
  by (auto simp: workq_run_def cycle_trampoline_def cycle_frame(1) split: option.splits)

lemma ioctl_legal_interval:
  assumes "ticks_fit_int P" and "legal_interval P s"
    and "LL905_ioctl P cmd arg s = Inr (ret, s')"
  shows "legal_interval P s'"
proof -
  have fit: "0 \<le> sint (USEC2TICK P usec)" for usec
    using assms(1) by (simp add: ticks_fit_int_def)
  have le: "sint (conversion_ticks P) \<le> sint (USEC2TICK P usec)"
    if "\<not> USEC2TICK P usec < conversion_ticks P" for usec
    using that fit [of usec] fit [of "of_nat LL905_CONVERSION_INTERVAL"]
    by (intro sint_mono_nonneg) (simp_all add: conversion_ticks_def)
  show ?thesis
    using assms(2,3) le
    by (cases cmd)
      (auto simp: LL905_ioctl.simps legal_interval_def unsigned_div_def int_div_def Let_def
        start_frame LL905_stop_def work_cancel_def emit_def
        set_minimum_distance_def set_maximum_distance_def
        split: if_splits option.splits)
qed

lemma reachable_legal_interval:
  assumes "reachable P s" and "ticks_fit_int P"
  shows "legal_interval P s"
  using assms(1)
proof induction
  case (reachable_init s)
  then show ?case by (simp add: after_init_def legal_interval_def)
next
  case (reachable_ioctl s cmd arg ret s')
  then show ?case using ioctl_legal_interval [OF assms(2)] by blast
next
  case (reachable_read s buflen out s')
  from reachable_read(2) have "s' = snd (LL905_read P buflen s)" by simp
  with reachable_read(3) show ?case by (simp add: legal_interval_def read_frame)
next
  case (reachable_cycle s)
  then show ?case by (simp add: legal_interval_def workq_run_frame)
next
  case (reachable_env s bus now handle mem ok)
  then show ?case by (simp add: legal_interval_def)
qed


lemma sint_small_nonneg:
  assumes "uint w < 2 ^ 31"
  shows "0 \<le> sint (w :: uint32_t)"
proof -
  have "sint w = signed_take_bit 31 (uint w)" by (simp add: sint_uint)
  also have "\<dots> = uint w"
  proof (rule signed_take_bit_int_eq_self)
    show "- (2 ^ 31) \<le> uint w" by (rule order_trans [OF _ uint_ge_0]) simp
    show "uint w < 2 ^ 31" by (rule assms)
  qed
  finally show ?thesis by simp
qed

lemma example_ticks_fit_int: "ticks_fit_int example_platform"
proof -
  have "0 \<le> sint ((usec + 500) div 1000)" for usec :: uint32_t
  proof (rule sint_small_nonneg)
    have "uint (usec + 500) < 2 ^ 32"
      using uint_bounded [of "usec + 500"] by simp
    then have "uint (usec + 500) div 1000 < 2 ^ 31" by simp
    then show "uint ((usec + 500) div 1000) < 2 ^ 31" by (simp add: uint_div)
  qed
  then show ?thesis by (simp add: ticks_fit_int_def example_platform_def)
qed

lemma example_driver_after_init: "after_init (example_driver reply)"
  by (simp add: after_init_def example_driver_def)

lemma polling_driver_reachable: "reachable example_platform polling_driver"
  using reachable_init [OF example_driver_after_init] example_set_default_rate
  by (rule reachable_ioctl)

text \<open>
  In every state that the driver reaches, the engine is stopped (no cycle is queued)
  exactly when the interval is 0, provided that the conversion latency is not 0 ticks.
\<close>

lemma ioctl_engine_running:
  assumes "ticks_fit_int P" and "conversion_ticks P \<noteq> 0"
    and "(work s = None) = (measure_ticks s = 0)"
    and "LL905_ioctl P cmd arg s = Inr (ret, s')"
  shows "(work s' = None) = (measure_ticks s' = 0)"
proof -
  have nz: "sint (USEC2TICK P usec) \<noteq> 0"
    if "\<not> USEC2TICK P usec < conversion_ticks P" for usec
  proof -
    from that assms(2) have "USEC2TICK P usec \<noteq> 0"
      by (metis not_less word_gt_0 word_not_simps(1))
    then show ?thesis by (simp add: signed_eq_0_iff)
  qed
  have cz: "sint (conversion_ticks P) \<noteq> 0"
    using assms(2) by (simp add: signed_eq_0_iff)
  show ?thesis
    using assms(3,4) nz cz
    by (cases cmd)
      (auto simp: LL905_ioctl.simps unsigned_div_def int_div_def Let_def
        start_frame LL905_stop_def work_cancel_def emit_def
        set_minimum_distance_def set_maximum_distance_def
        split: if_splits option.splits)
qed

lemma reachable_engine_running:
  assumes "reachable P s" and "ticks_fit_int P" and "conversion_ticks P \<noteq> 0"
  shows "(work s = None) = (measure_ticks s = 0)"
  using assms(1)
proof induction
  case (reachable_init s)
  then show ?case by (simp add: after_init_def)
next
  case (reachable_ioctl s cmd arg ret s')
  show ?case
    by (rule ioctl_engine_running [OF assms(2,3) reachable_ioctl(3) reachable_ioctl(2)])
next
  case (reachable_read s buflen out s')
  from reachable_read(2) have "s' = snd (LL905_read P buflen s)" by simp
  with reachable_read(3) show ?case by (simp add: read_frame)
next
  case (reachable_cycle s)
  then show ?case
    by (cases "work s = None") (simp_all add: workq_run_frame)
next
  case (reachable_env s bus now handle mem ok)
  then show ?case by simp
qed

text \<open>
  C9. In every state that the driver reaches from \<^verbatim>\<open>init\<close> by \<^verbatim>\<open>ioctl\<close> calls
  (whatever the command and the argument), \<^verbatim>\<open>read\<close> calls, cycles and changes of the
  environment, the interval is 0 or at least the conversion latency in ticks, for
  every build whose tick counts fit an \<^verbatim>\<open>int\<close>.
\<close>

theorem interval_zero_or_legal:
  assumes "reachable P s" and "ticks_fit_int P"
  shows "measure_ticks s = 0 \<or> sint (conversion_ticks P) \<le> measure_ticks s"
  using reachable_legal_interval [OF assms] by (simp add: legal_interval_def)

text \<open>The example driver at the default rate: 100 ticks, the conversion latency.\<close>

theorem interval_zero_or_legal_witness:
  "reachable example_platform polling_driver \<and> ticks_fit_int example_platform \<and>
   measure_ticks polling_driver = 100 \<and>
   sint (conversion_ticks example_platform) \<le> measure_ticks polling_driver"
  using interval_zero_or_legal [OF polling_driver_reachable example_ticks_fit_int]
    polling_driver_reachable example_ticks_fit_int
  by (simp add: polling_driver_ticks)

text \<open>
  C5. A poll rate request that is none of the reserved values and not 0 is a rate in Hz.
  When its interval in ticks is below the conversion latency in ticks, \<^verbatim>\<open>ioctl\<close> returns
  \<open>- EINVAL\<close> and the driver is as it was: the interval, the work item and all the rest.
  Otherwise it returns \<open>OK\<close> and the interval is the requested one; when the interval
  was 0 before (the driver's test for a stopped engine, \<open>want_start\<close>), \<^verbatim>\<open>start\<close> has
  run and a cycle is queued, and when it was not, nothing but the interval has changed.
  In a state that the driver reaches this is to say: a stopped engine is started, and
  a running one is left as it is.
\<close>

theorem set_rate_explicit_hz:
  assumes "arg \<noteq> SENSOR_POLLRATE_MANUAL P" and "arg \<noteq> SENSOR_POLLRATE_EXTERNAL P"
    and "arg \<noteq> 0" and "arg \<noteq> SENSOR_POLLRATE_MAX P" and "arg \<noteq> SENSOR_POLLRATE_DEFAULT P"
  shows "(USEC2TICK P (1000000 div arg) < conversion_ticks P \<longrightarrow>
       LL905_ioctl P SENSORIOCSPOLLRATE arg s = Inr (- EINVAL, s)) \<and>
    (conversion_ticks P \<le> USEC2TICK P (1000000 div arg) \<longrightarrow>
       (\<exists>s'. LL905_ioctl P SENSORIOCSPOLLRATE arg s = Inr (OK, s') \<and>
          measure_ticks s' = sint (USEC2TICK P (1000000 div arg)) \<and>
          (measure_ticks s = 0 \<longrightarrow>
             s' = LL905_start (s\<lparr>measure_ticks := sint (USEC2TICK P (1000000 div arg))\<rparr>) \<and>
             work s' = Some 1) \<and>
          (measure_ticks s \<noteq> 0 \<longrightarrow>
             s' = s\<lparr>measure_ticks := sint (USEC2TICK P (1000000 div arg))\<rparr> \<and>
             work s' = work s) \<and>
          (reachable P s \<and> ticks_fit_int P \<and> conversion_ticks P \<noteq> 0 \<longrightarrow>
             (work s = None \<longrightarrow> work s' = Some 1) \<and>
             (work s \<noteq> None \<longrightarrow> work s' = work s))))"
proof -
  have running: "(work s = None) = (measure_ticks s = 0)"
    if "reachable P s \<and> ticks_fit_int P \<and> conversion_ticks P \<noteq> 0"
  proof -
    from that have "reachable P s" and "ticks_fit_int P" and "conversion_ticks P \<noteq> 0"
      by simp_all
    then show ?thesis by (rule reachable_engine_running)
  qed
  show ?thesis
    unfolding ioctl_explicit_hz [OF assms]
    using running by (auto simp: start_frame not_less [symmetric])
qed

text \<open>
  11 Hz is an interval of 91 ticks, below the 100 ticks of the conversion: refused.
  2 Hz is an interval of 500 ticks: accepted, and the stopped engine is started.
\<close>

theorem set_rate_explicit_hz_witness:
  "LL905_ioctl example_platform SENSORIOCSPOLLRATE 11 polling_driver
     = Inr (- EINVAL, polling_driver) \<and>
   reachable example_platform (example_driver (0, 0x03, 0xE8)) \<and>
   ticks_fit_int example_platform \<and> conversion_ticks example_platform \<noteq> 0 \<and>
   work (example_driver (0, 0x03, 0xE8)) = None \<and>
   (\<exists>s'. LL905_ioctl example_platform SENSORIOCSPOLLRATE 2 (example_driver (0, 0x03, 0xE8))
            = Inr (OK, s') \<and>
         measure_ticks s' = 500 \<and> work s' = Some 1)"
proof -
  have p: "(11 :: uint32_t) \<noteq> SENSOR_POLLRATE_MANUAL example_platform"
    "(11 :: uint32_t) \<noteq> SENSOR_POLLRATE_EXTERNAL example_platform"
    "(11 :: uint32_t) \<noteq> 0"
    "(11 :: uint32_t) \<noteq> SENSOR_POLLRATE_MAX example_platform"
    "(11 :: uint32_t) \<noteq> SENSOR_POLLRATE_DEFAULT example_platform"
    by (simp_all add: example_platform_def)
  have q: "(2 :: uint32_t) \<noteq> SENSOR_POLLRATE_MANUAL example_platform"
    "(2 :: uint32_t) \<noteq> SENSOR_POLLRATE_EXTERNAL example_platform"
    "(2 :: uint32_t) \<noteq> 0"
    "(2 :: uint32_t) \<noteq> SENSOR_POLLRATE_MAX example_platform"
    "(2 :: uint32_t) \<noteq> SENSOR_POLLRATE_DEFAULT example_platform"
    by (simp_all add: example_platform_def)
  have z: "measure_ticks (example_driver (0, 0x03, 0xE8)) = 0"
    "work (example_driver (0, 0x03, 0xE8)) = None"
    by (simp_all add: example_driver_def)
  have r: "reachable example_platform (example_driver (0, 0x03, 0xE8))"
    by (rule reachable_init [OF example_driver_after_init])
  from set_rate_explicit_hz [OF p, of polling_driver]
  have 1: "LL905_ioctl example_platform SENSORIOCSPOLLRATE 11 polling_driver
     = Inr (- EINVAL, polling_driver)"
    by (simp add: example_usec2tick_11hz example_conversion_ticks)
  from set_rate_explicit_hz [OF q, of "example_driver (0, 0x03, 0xE8)"]
  have 2: "\<exists>s'. LL905_ioctl example_platform SENSORIOCSPOLLRATE 2 (example_driver (0, 0x03, 0xE8))
            = Inr (OK, s') \<and> measure_ticks s' = 500 \<and> work s' = Some 1"
    by (simp add: example_usec2tick_2hz example_conversion_ticks z)
  from 1 2 r z show ?thesis
    by (simp add: example_ticks_fit_int example_conversion_ticks)
qed

subsection \<open>Reading\<close>

lemma read_loop_result:
  "read_loop sz count rb ret rbuf =
     (rb\<lparr>items := drop count (items rb)\<rparr>,
      ret + int sz * int (min count (length (items rb))),
      rbuf @ take count (items rb))"
proof (induction count arbitrary: rb ret rbuf)
  case 0
  then show ?case by simp
next
  case (Suc count)
  show ?case
  proof (cases "items rb")
    case Nil
    then show ?thesis by (simp add: RingBuffer_get_def Suc)
  next
    case (Cons x xs)
    then show ?thesis by (simp add: RingBuffer_get_def Suc algebra_simps)
  qed
qed

lemma example_sizeof: "sizeof_range_finder_report example_platform = 40"
  by (simp add: example_platform_def)

lemma polling_driver_ring: "reports polling_driver = \<lparr>items = [], capacity = 2\<rparr>"
  by (simp add: polling_driver_def LL905_start_def environment_defs Let_def
      RingBuffer_flush_def example_driver_def RingBuffer_new_def)

lemma collect_success_state:
  assumes "i2c_reply s (i2c_count s) = (ret, val0, val1)" and "0 \<le> ret"
    and "items (reports s) = []"
  shows "RingBuffer_get (reports (snd (LL905_collect s))) =
      Some (collect_report s val0 val1, (reports (snd (LL905_collect s)))\<lparr>items := []\<rparr>)"
  using assms
  by (auto simp: LL905_collect_def environment_defs Let_def RingBuffer_force_def
      RingBuffer_get_def collect_report_def get_minimum_distance_def
      get_maximum_distance_def split: prod.splits)

text \<open>
  C7, as amended. In automatic mode (the interval is positive) a \<^verbatim>\<open>read\<close> whose buffer
  holds at least one report takes up to as many reports as the buffer holds from the
  ring, oldest first, and returns their size in bytes, or \<open>- EAGAIN\<close> when the ring is
  empty; the reports it hands out are the ones taken from the ring, it adds nothing to
  the trace (no bus transaction, no sleep) and the ring keeps the rest. A \<^verbatim>\<open>read\<close> with
  a smaller buffer returns \<open>- ENOSPC\<close> and leaves the driver as it was.
\<close>

theorem read_automatic_mode:
  assumes "0 < measure_ticks s"
  shows "(unat buflen div sizeof_range_finder_report P < 1 \<longrightarrow>
       LL905_read P buflen s = ((- ENOSPC, []), s)) \<and>
    (1 \<le> unat buflen div sizeof_range_finder_report P \<longrightarrow>
       LL905_read P buflen s =
         ((if items (reports s) = [] then - EAGAIN
           else int (sizeof_range_finder_report P) *
                int (min (unat buflen div sizeof_range_finder_report P)
                       (length (items (reports s)))),
           take (unat buflen div sizeof_range_finder_report P) (items (reports s))),
          s\<lparr>reports := (reports s)
             \<lparr>items := drop (unat buflen div sizeof_range_finder_report P)
                         (items (reports s))\<rparr>\<rparr>) \<and>
       trace (snd (LL905_read P buflen s)) = trace s \<and>
       i2c_count (snd (LL905_read P buflen s)) = i2c_count s)"
proof -
  have "sizeof_range_finder_report P \<noteq> 0"
    if "1 \<le> unat buflen div sizeof_range_finder_report P"
    using that by (cases "sizeof_range_finder_report P = 0") simp_all
  then show ?thesis
    using assms by (auto simp: LL905_read_def Let_def read_loop_result)
qed


text \<open>
  A buffer for two reports: with the ring empty the answer is \<open>- EAGAIN\<close>, and with
  one report in the ring it is that report.
\<close>

theorem read_automatic_mode_witness:
  "0 < measure_ticks polling_driver \<and>
   1 \<le> unat (80 :: uint32_t) div sizeof_range_finder_report example_platform \<and>
   LL905_read example_platform 80 polling_driver = ((- EAGAIN, []), polling_driver) \<and>
   fst (LL905_read example_platform 80
     (polling_driver\<lparr>reports := \<lparr>items =
        [\<lparr>timestamp = 0, rtype = RANGE_FINDER_TYPE_LASER, error_count = 0,
          distance = Finite 5, valid = 1\<rparr>], capacity = 2\<rparr>\<rparr>)) =
     (40, [\<lparr>timestamp = 0, rtype = RANGE_FINDER_TYPE_LASER, error_count = 0,
             distance = Finite 5, valid = 1\<rparr>])"
proof -
  let ?r = "\<lparr>timestamp = 0, rtype = RANGE_FINDER_TYPE_LASER, error_count = 0,
             distance = Finite 5, valid = 1\<rparr>"
  let ?s = "polling_driver\<lparr>reports := \<lparr>items = [?r], capacity = 2\<rparr>\<rparr>"
  have 1: "0 < measure_ticks polling_driver" "0 < measure_ticks ?s"
    by (simp_all add: polling_driver_ticks)
  have 3: "polling_driver\<lparr>reports := \<lparr>items = [], capacity = 2\<rparr>\<rparr> = polling_driver"
    using polling_driver_ring by (metis LL905.surjective LL905.update_convs(4))
  from read_automatic_mode [OF 1(1), of 80 example_platform]
  have "LL905_read example_platform 80 polling_driver = ((- EAGAIN, []), polling_driver)"
    by (simp add: example_sizeof 3 polling_driver_ring)
  moreover from read_automatic_mode [OF 1(2), of 80 example_platform]
  have "fst (LL905_read example_platform 80 ?s) = (40, [?r])"
    by (simp add: example_sizeof)
  ultimately show ?thesis using 1 by (simp add: example_sizeof)
qed

text \<open>
  C7 as stated fails: with the ring empty and a buffer too small for one report,
  \<^verbatim>\<open>read\<close> returns \<open>- ENOSPC\<close>, not \<open>- EAGAIN\<close>.
\<close>

theorem read_automatic_mode_small_buffer_counterexample:
  "0 < measure_ticks polling_driver \<and> items (reports polling_driver) = [] \<and>
   LL905_read example_platform 0 polling_driver = ((- ENOSPC, []), polling_driver) \<and>
   - ENOSPC \<noteq> - EAGAIN"
  by (simp add: LL905_read_def polling_driver_ticks polling_driver_ring ENOSPC_def EAGAIN_def)

text \<open>
  C6, as amended. In manual mode (the interval is 0) a \<^verbatim>\<open>read\<close> whose buffer holds at
  least one report flushes the ring, sends the acquisition command once, sleeps for the
  conversion latency, reads the distance registers once and returns the one report
  built from that read, whatever the ring held before; the ring is empty afterwards.
  When the acquisition command fails it returns \<open>- EIO\<close> without sleeping or reading,
  and when the read fails it returns \<open>- EIO\<close>. A \<^verbatim>\<open>read\<close> with a smaller buffer returns
  \<open>- ENOSPC\<close> and leaves the driver as it was.
\<close>

theorem read_manual_mode:
  assumes "measure_ticks s = 0"
  shows "(unat buflen div sizeof_range_finder_report P < 1 \<longrightarrow>
       LL905_read P buflen s = ((- ENOSPC, []), s)) \<and>
    (1 \<le> unat buflen div sizeof_range_finder_report P \<longrightarrow>
       (OK \<noteq> fst (i2c_reply s (i2c_count s)) \<longrightarrow>
          fst (LL905_read P buflen s) = (- EIO, []) \<and>
          trace (snd (LL905_read P buflen s)) = trace s @
            [I2C_transfer [LL905_MEASURE_REG, LL905_MSRREG_ACQUIRE] 0,
             Log ''i2c::transfer returned %d'']) \<and>
       (OK = fst (i2c_reply s (i2c_count s)) \<and>
        fst (i2c_reply s (Suc (i2c_count s))) < 0 \<longrightarrow>
          fst (LL905_read P buflen s) = (- EIO, []) \<and>
          trace (snd (LL905_read P buflen s)) = trace s @
            [I2C_transfer [LL905_MEASURE_REG, LL905_MSRREG_ACQUIRE] 0,
             Usleep LL905_CONVERSION_INTERVAL,
             Perf_begin, I2C_transfer [LL905_DISTHIGH_REG] 2,
             Log ''error reading from sensor: %d'', Perf_end]) \<and>
       (OK = fst (i2c_reply s (i2c_count s)) \<and>
        0 \<le> fst (i2c_reply s (Suc (i2c_count s))) \<longrightarrow>
          fst (LL905_read P buflen s) =
            (int (sizeof_range_finder_report P),
             [collect_report s (fst (snd (i2c_reply s (Suc (i2c_count s)))))
                (snd (snd (i2c_reply s (Suc (i2c_count s)))))]) \<and>
          items (reports (snd (LL905_read P buflen s))) = [] \<and>
          trace (snd (LL905_read P buflen s)) = trace s @
            [I2C_transfer [LL905_MEASURE_REG, LL905_MSRREG_ACQUIRE] 0,
             Usleep LL905_CONVERSION_INTERVAL,
             Perf_begin, I2C_transfer [LL905_DISTHIGH_REG] 2] @
            (if 0 \<le> range_finder_topic s
             then [Orb_publish_range_finder
                     (collect_report s (fst (snd (i2c_reply s (Suc (i2c_count s)))))
                        (snd (snd (i2c_reply s (Suc (i2c_count s))))))]
             else []) @
            [Poll_notify, Perf_end]))"
proof -
  let ?s1 = "s\<lparr>reports := RingBuffer_flush (reports s)\<rparr>"
  let ?s2 = "?s1\<lparr>i2c_count := Suc (i2c_count s),
    trace := trace s @ [I2C_transfer [LL905_MEASURE_REG, LL905_MSRREG_ACQUIRE] 0]\<rparr>"
  let ?s3 = "emit (Usleep LL905_CONVERSION_INTERVAL) ?s2"
  obtain ret val0 val1 where reply: "i2c_reply s (Suc (i2c_count s)) = (ret, val0, val1)"
    by (cases "i2c_reply s (Suc (i2c_count s))")
  have small: "LL905_read P buflen s = ((- ENOSPC, []), s)"
    if "unat buflen div sizeof_range_finder_report P < 1"
    using that by (simp add: LL905_read_def)
  have m_fail: "fst (LL905_read P buflen s) = (- EIO, []) \<and>
      trace (snd (LL905_read P buflen s)) = trace s @
        [I2C_transfer [LL905_MEASURE_REG, LL905_MSRREG_ACQUIRE] 0,
         Log ''i2c::transfer returned %d'']"
    if "1 \<le> unat buflen div sizeof_range_finder_report P"
      and "OK \<noteq> fst (i2c_reply s (i2c_count s))"
    using that assms by (simp add: LL905_read_def Let_def measure_result)
  have s3: "i2c_reply ?s3 (i2c_count ?s3) = (ret, val0, val1)"
    "trace ?s3 = trace s @ [I2C_transfer [LL905_MEASURE_REG, LL905_MSRREG_ACQUIRE] 0,
        Usleep LL905_CONVERSION_INTERVAL]"
    "items (reports ?s3) = []"
    "range_finder_topic ?s3 = range_finder_topic s"
    "collect_report ?s3 val0 val1 = collect_report s val0 val1"
    if "OK = fst (i2c_reply s (i2c_count s))"
    using that reply
    by (simp_all add: emit_def RingBuffer_flush_def collect_report_def
        get_minimum_distance_def get_maximum_distance_def)
  have c_fail: "fst (LL905_read P buflen s) = (- EIO, []) \<and>
      trace (snd (LL905_read P buflen s)) = trace s @
        [I2C_transfer [LL905_MEASURE_REG, LL905_MSRREG_ACQUIRE] 0,
         Usleep LL905_CONVERSION_INTERVAL,
         Perf_begin, I2C_transfer [LL905_DISTHIGH_REG] 2,
         Log ''error reading from sensor: %d'', Perf_end]"
    if count: "1 \<le> unat buflen div sizeof_range_finder_report P"
      and ok: "OK = fst (i2c_reply s (i2c_count s))"
      and neg: "fst (i2c_reply s (Suc (i2c_count s))) < 0"
  proof -
    from neg reply have ret: "ret < 0" by simp
    then have ne: "OK \<noteq> ret" by (simp add: OK_def)
    have m: "LL905_measure ?s1 = (OK, ?s2)"
      using ok by (simp add: measure_result)
    show ?thesis
      using count assms ne
      by (simp add: LL905_read_def Let_def m collect_failure [OF s3(1) [OF ok] ret] s3(2) [OF ok])
  qed
  have success: "fst (LL905_read P buflen s) =
        (int (sizeof_range_finder_report P), [collect_report s val0 val1]) \<and>
      items (reports (snd (LL905_read P buflen s))) = [] \<and>
      trace (snd (LL905_read P buflen s)) = trace s @
        [I2C_transfer [LL905_MEASURE_REG, LL905_MSRREG_ACQUIRE] 0,
         Usleep LL905_CONVERSION_INTERVAL,
         Perf_begin, I2C_transfer [LL905_DISTHIGH_REG] 2] @
        (if 0 \<le> range_finder_topic s
         then [Orb_publish_range_finder (collect_report s val0 val1)] else []) @
        [Poll_notify, Perf_end]"
    if count: "1 \<le> unat buflen div sizeof_range_finder_report P"
      and ok: "OK = fst (i2c_reply s (i2c_count s))"
      and pos: "0 \<le> fst (i2c_reply s (Suc (i2c_count s)))"
  proof -
    from pos reply have ret: "0 \<le> ret" by simp
    note r3 = s3(1) [OF ok]
    have m: "LL905_measure ?s1 = (OK, ?s2)"
      using ok by (simp add: measure_result)
    have c: "LL905_collect ?s3 = (OK, snd (LL905_collect ?s3))"
      by (rule collect_success(1) [OF r3 ret])
    have g: "RingBuffer_get (reports (snd (LL905_collect ?s3))) =
        Some (collect_report s val0 val1, (reports (snd (LL905_collect ?s3)))\<lparr>items := []\<rparr>)"
      using collect_success_state [OF r3 ret s3(3) [OF ok]] by (simp only: s3(5) [OF ok])
    have t: "trace (snd (LL905_collect ?s3)) = trace s @
        [I2C_transfer [LL905_MEASURE_REG, LL905_MSRREG_ACQUIRE] 0,
         Usleep LL905_CONVERSION_INTERVAL,
         Perf_begin, I2C_transfer [LL905_DISTHIGH_REG] 2] @
        (if 0 \<le> range_finder_topic s
         then [Orb_publish_range_finder (collect_report s val0 val1)] else []) @
        [Poll_notify, Perf_end]"
      using collect_success_frame(8) [OF r3 ret]
      by (simp only: s3(2) [OF ok] s3(4) [OF ok] s3(5) [OF ok]) simp
    have "LL905_read P buflen s =
        ((int (sizeof_range_finder_report P), [collect_report s val0 val1]),
         (snd (LL905_collect ?s3))\<lparr>reports := (reports (snd (LL905_collect ?s3)))\<lparr>items := []\<rparr>\<rparr>)"
      unfolding LL905_read_def Let_def using count assms
      by (simp add: m) (subst c, simp add: g)
    then show ?thesis by (simp add: t)
  qed
  show ?thesis
    using small m_fail c_fail success by (simp add: reply)
qed


text \<open>The device answers 0x01F4: one report of 5 meters, after one command and one read.\<close>

theorem read_manual_mode_witness:
  "measure_ticks (example_driver (0, 0x01, 0xF4)) = 0 \<and>
   1 \<le> unat (40 :: uint32_t) div sizeof_range_finder_report example_platform \<and>
   fst (LL905_read example_platform 40 (example_driver (0, 0x01, 0xF4))) =
     (40, [\<lparr>timestamp = 0, rtype = RANGE_FINDER_TYPE_LASER, error_count = 0,
             distance = Finite 5, valid = 1\<rparr>]) \<and>
   trace (snd (LL905_read example_platform 40 (example_driver (0, 0x01, 0xF4)))) =
     [I2C_transfer [0x00, 0x04] 0, Usleep 100000, Perf_begin, I2C_transfer [0x8F] 2,
      Orb_publish_range_finder
        \<lparr>timestamp = 0, rtype = RANGE_FINDER_TYPE_LASER, error_count = 0,
         distance = Finite 5, valid = 1\<rparr>,
      Poll_notify, Perf_end]"
proof -
  let ?s = "example_driver (0, 0x01, 0xF4)"
  have 1: "measure_ticks ?s = 0" by (simp add: example_driver_def)
  have 3: "i2c_reply ?s n = (0, 0x01, 0xF4)" for n by (simp add: example_driver_def)
  have 4: "trace ?s = []" "range_finder_topic ?s = 3" by (simp_all add: example_driver_def)
  from read_manual_mode [OF 1, of 40 example_platform] 1 show ?thesis
    by (simp add: 3 4 OK_def example_report_500 example_sizeof LL905_MEASURE_REG_def
        LL905_MSRREG_ACQUIRE_def LL905_DISTHIGH_REG_def LL905_CONVERSION_INTERVAL_def)
qed

text \<open>
  C6 as stated fails: with a buffer too small for one report \<^verbatim>\<open>read\<close> returns
  \<open>- ENOSPC\<close>; there is no acquisition, no read and no report.
\<close>

theorem read_manual_mode_small_buffer_counterexample:
  "measure_ticks (example_driver (0, 0x03, 0xE8)) = 0 \<and>
   LL905_read example_platform 0 (example_driver (0, 0x03, 0xE8)) =
     ((- ENOSPC, []), example_driver (0, 0x03, 0xE8)) \<and>
   trace (example_driver (0, 0x03, 0xE8)) = [] \<and> - ENOSPC \<noteq> - EIO"
  by (simp add: LL905_read_def ENOSPC_def EIO_def) (simp add: example_driver_def)

end
